theory Spec2Isabelle
  imports Complex_Main "HOL-Library.AList"
begin

section \<open>The conductor client of vines_worker_sdk\<close>

text \<open>
  A shallow embedding of \<^verbatim>\<open>vines_worker_sdk/conductor/__init__.py\<close> (class
  \<^verbatim>\<open>ConductorClient\<close>). Python dictionaries whose iteration order is observable
  (\<^verbatim>\<open>task_types\<close>, \<^verbatim>\<open>tasks\<close>, the report body) are association lists:
  \<open>AList.update\<close> replaces the value of a key in place and appends a new key at the end,
  as a Python dict does. Exceptions are values of type \<open>error\<close>, and a function that can
  raise returns \<open>error + 'a\<close> with \<open>Inl\<close> for the raised exception. Calls that leave the
  process (HTTP requests, the Redis read, the upload to external storage, sleeping, starting
  a thread) are recorded, in order, in a list of events; what such a call answers is given by
  the \<open>world\<close>. Diagnostic output (\<^verbatim>\<open>print\<close>, \<^verbatim>\<open>logging\<close>, \<^verbatim>\<open>traceback\<close>) and
  the HTTP basic-auth argument are left out.
  A Python \<^verbatim>\<open>str\<close> is held as the list of its UTF-8 bytes.
\<close>

subsection \<open>Values, exceptions, tasks\<close>

datatype pyval =
    PNone
  | PBool bool
  | PInt int
  | PStr string
  | PList "pyval list"
  | PDict "(string \<times> pyval) list"

text \<open>Python truth value testing, as used by \<^verbatim>\<open>if result:\<close> and \<^verbatim>\<open>if output_data:\<close>.\<close>

fun truthy :: "pyval \<Rightarrow> bool" where
  "truthy PNone = False"
| "truthy (PBool b) = b"
| "truthy (PInt i) = (i \<noteq> 0)"
| "truthy (PStr s) = (s \<noteq> [])"
| "truthy (PList xs) = (xs \<noteq> [])"
| "truthy (PDict kvs) = (kvs \<noteq> [])"

text \<open>
  The exceptions (all subclasses of \<^verbatim>\<open>Exception\<close>). The source raises a plain
  \<^verbatim>\<open>Exception\<close> with a fixed message for a bad status and for a missing workflow context;
  they are told apart here by constructor. \<open>Raised m\<close> is an exception with message \<open>m\<close>
  raised by a collaborator (transport, storage, JSON codec) or by a handler.
\<close>

datatype error =
    InvalidStatusError
  | ContextNotFoundError string
  | KeyError string
  | AttributeError string
  | ValueError string
  | Raised string

text \<open>
  \<^verbatim>\<open>repr\<close> of a \<^verbatim>\<open>str\<close>, which is what \<^verbatim>\<open>str\<close> of a
  \<^verbatim>\<open>KeyError\<close> prints for a string key: double quotes when the string has an
  apostrophe and no double quote, single quotes otherwise; the chosen quote and the backslash
  are escaped by a backslash, tab, newline and carriage return by their letter, any other
  control character by \<open>\x\<close> and two hexadecimal digits. A code point beyond ASCII is
  taken to be printable, which \<^verbatim>\<open>repr\<close> keeps as it is.
\<close>

definition hex_digit :: "nat \<Rightarrow> char" where
  "hex_digit n = ''0123456789abcdef'' ! (n mod 16)"

definition repr_char :: "char \<Rightarrow> char \<Rightarrow> string" where
  "repr_char quote c =
     (if c = quote \<or> c = CHR 0x5C then [CHR 0x5C, c]
      else if c = CHR 0x09 then [CHR 0x5C, CHR ''t'']
      else if c = CHR 0x0A then [CHR 0x5C, CHR ''n'']
      else if c = CHR 0x0D then [CHR 0x5C, CHR ''r'']
      else if (of_char c :: nat) < 32 \<or> c = CHR 0x7F then
        [CHR 0x5C, CHR ''x'', hex_digit (of_char c div 16), hex_digit (of_char c mod 16)]
      else [c])"

definition py_repr :: "string \<Rightarrow> string" where
  "py_repr s =
     (let quote = (if CHR 0x27 \<in> set s \<and> CHR 0x22 \<notin> set s then CHR 0x22 else CHR 0x27)
      in [quote] @ concat (map (repr_char quote) s) @ [quote])"

text \<open>\<^verbatim>\<open>str(e)\<close>.\<close>

fun error_str :: "error \<Rightarrow> string" where
  "error_str InvalidStatusError = ''status must be COMPLETED or FAILED''"
| "error_str (ContextNotFoundError workflow_instance_id) =
     [CHR 0xE6, CHR 0x97, CHR 0xA0, CHR 0xE6, CHR 0xB3, CHR 0x95,
      CHR 0xE8, CHR 0x8E, CHR 0xB7, CHR 0xE5, CHR 0x8F, CHR 0x96]
     @ '' workflow context for workflowInstanceId='' @ workflow_instance_id"
| "error_str (KeyError k) = py_repr k"
| "error_str (AttributeError m) = m"
| "error_str (ValueError m) = m"
| "error_str (Raised m) = m"

record task =
  taskId :: string
  workflowInstanceId :: string

type_synonym handler = "task \<Rightarrow> pyval \<Rightarrow> error + pyval"

type_synonym body = "(string \<times> pyval) list"

datatype event =
    WorkflowGet string
  | RedisGet string
  | UploadBytes string string
  | TasksPost body
  | PollBatch string string nat
  | ThreadStart string task
  | Sleep int

subsection \<open>Configuration, collaborators, client state\<close>

text \<open>
  The fields of \<^verbatim>\<open>__init__\<close> that the modelled methods read. An external storage client
  is its \<^verbatim>\<open>upload_bytes(key, bytes)\<close>, which returns (\<open>None\<close>) or raises (\<open>Some e\<close>).
\<close>

record config =
  worker_id :: string
  poll_interval_ms :: int
  task_output_payload_size_threshold_kb :: int
  external_storage :: "(string \<Rightarrow> string \<Rightarrow> error option) option"
  worker_name_prefix :: "string option"

text \<open>The constructor called with its required arguments only: every default of the signature.\<close>

definition default_config :: "string \<Rightarrow> config" where
  "default_config wid =
     \<lparr> worker_id = wid,
       poll_interval_ms = 500,
       task_output_payload_size_threshold_kb = 1024,
       external_storage = None,
       worker_name_prefix = None \<rparr>"

text \<open>
  What the collaborators answer. \<open>workflow_get w\<close> is
  \<^verbatim>\<open>requests.get(".../workflow/{w}").json().get('parentWorkflowId')\<close> (\<open>None\<close> when the
  field is missing or null); \<open>redis_get\<close> is \<^verbatim>\<open>redis_client.get\<close>; \<open>json_loads\<close> and
  \<open>json_dumps\<close> are the JSON codec, the latter followed by \<^verbatim>\<open>.encode('utf-8')\<close>;
  \<open>tasks_post\<close> is the POST to \<^verbatim>\<open>/tasks\<close>; \<open>poll_batch\<close> is the GET to
  \<^verbatim>\<open>/tasks/poll/batch/{task_type}\<close> followed by \<^verbatim>\<open>.json()\<close>.
\<close>

record world =
  workflow_get :: "string \<Rightarrow> error + string option"
  redis_get :: "string \<Rightarrow> error + string option"
  json_loads :: "string \<Rightarrow> error + pyval"
  json_dumps :: "pyval \<Rightarrow> error + string"
  tasks_post :: "body \<Rightarrow> error option"
  poll_batch :: "string \<Rightarrow> string \<Rightarrow> nat \<Rightarrow> error + task list"

text \<open>The two class-level dictionaries.\<close>

record client =
  task_types :: "(string \<times> handler) list"
  tasks :: "(string \<times> task) list"

subsection \<open>register_handler\<close>

definition register_handler :: "config \<Rightarrow> string \<Rightarrow> handler \<Rightarrow> client \<Rightarrow> client" where
  "register_handler cfg name callback self =
     (let name' = (case worker_name_prefix cfg of
                     None \<Rightarrow> name
                   | Some prefix \<Rightarrow> if prefix \<noteq> [] then prefix @ name else name)
      in self\<lparr>task_types := AList.update name' callback (task_types self)\<rparr>)"

subsection \<open>Workflow context\<close>

definition get_workflow_context_cache_key :: "string \<Rightarrow> string" where
  "get_workflow_context_cache_key workflow_instance_id =
     ''workflow:context:'' @ workflow_instance_id"

text \<open>
  The \<^verbatim>\<open>while has_parent_workflow\<close> loop has no bound and no cycle guard: it is a partial
  function, and \<open>None\<close> is the run that never returns. A parent id that is the empty string
  is falsy in Python and ends the walk like a missing one.
\<close>

partial_function (option) get_real_workflow_instance_id_start_by_server ::
  "world \<Rightarrow> string \<Rightarrow> ((error + string) \<times> event list) option" where
  "get_real_workflow_instance_id_start_by_server env workflow_instance_id =
     (case workflow_get env workflow_instance_id of
        Inl e \<Rightarrow> Some (Inl e, [WorkflowGet workflow_instance_id])
      | Inr None \<Rightarrow> Some (Inr workflow_instance_id, [WorkflowGet workflow_instance_id])
      | Inr (Some parent) \<Rightarrow>
          if parent \<noteq> [] then
            Option.bind (get_real_workflow_instance_id_start_by_server env parent)
              (\<lambda>(r, evs). Some (r, WorkflowGet workflow_instance_id # evs))
          else Some (Inr workflow_instance_id, [WorkflowGet workflow_instance_id]))"

declare get_real_workflow_instance_id_start_by_server.simps [code]

definition get_workflow_context ::
  "world \<Rightarrow> string \<Rightarrow> ((error + pyval) \<times> event list) option" where
  "get_workflow_context env workflow_instance_id =
     (case get_real_workflow_instance_id_start_by_server env workflow_instance_id of
        None \<Rightarrow> None
      | Some (Inl e, evs) \<Rightarrow> Some (Inl e, evs)
      | Some (Inr root_id, evs) \<Rightarrow>
          (let key = get_workflow_context_cache_key root_id in
           case redis_get env key of
             Inl e \<Rightarrow> Some (Inl e, evs @ [RedisGet key])
           | Inr None \<Rightarrow> Some (Inl (ContextNotFoundError root_id), evs @ [RedisGet key])
           | Inr (Some str_result) \<Rightarrow> Some (json_loads env str_result, evs @ [RedisGet key])))"

subsection \<open>update_task_result\<close>

text \<open>
  \<^verbatim>\<open>size / 1024\<close> is Python's true division; the quotient is exact in a float for every
  size below \<open>2 ^ 53\<close>, and it is a rational here.
\<close>

text \<open>
  The block \<^verbatim>\<open>if output_data:\<close> of \<^verbatim>\<open>update_task_result\<close>: the body with the output
  attached, inline or as a storage path after the upload, or the exception raised on the way.
\<close>

definition attach_output_data ::
  "config \<Rightarrow> world \<Rightarrow> string \<Rightarrow> pyval \<Rightarrow> body \<Rightarrow> (error + body) \<times> event list" where
  "attach_output_data cfg env task_id output_data body =
     (if truthy output_data then
        (case json_dumps env output_data of
           Inl e \<Rightarrow> (Inl e, [])
         | Inr obj_bytes \<Rightarrow>
             let size = length obj_bytes;
                 size_in_kb = (of_nat size / 1024 :: rat)
             in if size_in_kb > of_int (task_output_payload_size_threshold_kb cfg) then
                  let key = ''task/output/'' @ task_id @ ''.json'' in
                  (case external_storage cfg of
                     None \<Rightarrow>
                       (Inl (AttributeError
                          ([CHR 0x27] @ ''NoneType'' @ [CHR 0x27]
                           @ '' object has no attribute ''
                           @ [CHR 0x27] @ ''upload_bytes'' @ [CHR 0x27])), [])
                   | Some upload_bytes \<Rightarrow>
                       (case upload_bytes key obj_bytes of
                          Some e \<Rightarrow> (Inl e, [UploadBytes key obj_bytes])
                        | None \<Rightarrow>
                            (Inr (AList.update ''externalOutputPayloadStoragePath'' (PStr key)
                                   (AList.update ''outputData'' (PDict []) body)),
                             [UploadBytes key obj_bytes])))
                else (Inr (AList.update ''outputData'' output_data body), []))
      else (Inr body, []))"

text \<open>The three optional fields, each set only when its argument is truthy.\<close>

definition attach_optional_fields :: "pyval \<Rightarrow> pyval \<Rightarrow> pyval \<Rightarrow> body \<Rightarrow> body" where
  "attach_optional_fields reason_for_incompletion callback_after_seconds worker_id' body =
     (let body1 = (if truthy reason_for_incompletion
                   then AList.update ''reasonForIncompletion'' reason_for_incompletion body
                   else body);
          body2 = (if truthy callback_after_seconds
                   then AList.update ''callbackAfterSeconds'' callback_after_seconds body1
                   else body1)
      in if truthy worker_id' then AList.update ''workerId'' worker_id' body2 else body2)"

definition update_task_result ::
  "config \<Rightarrow> world \<Rightarrow> string \<Rightarrow> string \<Rightarrow> string \<Rightarrow> pyval \<Rightarrow> pyval \<Rightarrow> pyval \<Rightarrow> pyval
     \<Rightarrow> (error + unit) \<times> event list" where
  "update_task_result cfg env workflow_instance_id task_id status
       output_data reason_for_incompletion callback_after_seconds worker_id' =
     (if status \<notin> set [''COMPLETED'', ''FAILED''] then (Inl InvalidStatusError, [])
      else
        (case attach_output_data cfg env task_id output_data
                [(''workflowInstanceId'', PStr workflow_instance_id),
                 (''taskId'', PStr task_id),
                 (''status'', PStr status),
                 (''workerId'', PStr (worker_id cfg))] of
           (Inl e, evs) \<Rightarrow> (Inl e, evs)
         | (Inr body, evs) \<Rightarrow>
             (case tasks_post env
                     (attach_optional_fields reason_for_incompletion callback_after_seconds
                        worker_id' body) of
                Some e \<Rightarrow>
                  (Inl e, evs @ [TasksPost (attach_optional_fields reason_for_incompletion
                                              callback_after_seconds worker_id' body)])
              | None \<Rightarrow>
                  (Inr (), evs @ [TasksPost (attach_optional_fields reason_for_incompletion
                                               callback_after_seconds worker_id' body)]))))"

subsection \<open>The task executor\<close>

text \<open>\<^verbatim>\<open>del self.tasks[task_id]\<close>: a missing key raises \<^verbatim>\<open>KeyError\<close>.\<close>

definition del_task :: "string \<Rightarrow> client \<Rightarrow> error + client" where
  "del_task task_id self =
     (case map_of (tasks self) task_id of
        None \<Rightarrow> Inl (KeyError task_id)
      | Some _ \<Rightarrow> Inr (self\<lparr>tasks := AList.delete task_id (tasks self)\<rparr>))"

text \<open>
  The first two statements of the \<^verbatim>\<open>try\<close> block of \<^verbatim>\<open>wrapper\<close>: context
  resolution, then the handler on the task and its context. Either may raise; a handler is
  taken to return or raise.
\<close>

definition call_handler ::
  "world \<Rightarrow> handler \<Rightarrow> task \<Rightarrow> ((error + pyval) \<times> event list) option" where
  "call_handler env callback task =
     (case get_workflow_context env (workflowInstanceId task) of
        None \<Rightarrow> None
      | Some (Inl e, evs) \<Rightarrow> Some (Inl e, evs)
      | Some (Inr workflow_context, evs) \<Rightarrow> Some (callback task workflow_context, evs))"

text \<open>
  The whole \<^verbatim>\<open>try\<close> block: for a truthy result the COMPLETED report and then the removal
  from \<^verbatim>\<open>tasks\<close>, both inside the block; with the state and the events at the point
  where the block ends or raises.
\<close>

definition wrapper_try ::
  "config \<Rightarrow> world \<Rightarrow> handler \<Rightarrow> task \<Rightarrow> client
     \<Rightarrow> ((error + unit) \<times> client \<times> event list) option" where
  "wrapper_try cfg env callback task self =
     (case call_handler env callback task of
        None \<Rightarrow> None
      | Some (Inl e, evs) \<Rightarrow> Some (Inl e, self, evs)
      | Some (Inr result, evs) \<Rightarrow>
          Some (if truthy result then
                  (case update_task_result cfg env (workflowInstanceId task) (taskId task)
                          ''COMPLETED'' result PNone PNone PNone of
                     (Inl e, evs') \<Rightarrow> (Inl e, self, evs @ evs')
                   | (Inr _, evs') \<Rightarrow>
                       (case del_task (taskId task) self of
                          Inl e \<Rightarrow> (Inl e, self, evs @ evs')
                        | Inr self' \<Rightarrow> (Inr (), self', evs @ evs')))
                else (Inr (), self, evs)))"

text \<open>The output of the FAILED report built in the \<^verbatim>\<open>except\<close> block.\<close>

definition failure_output :: "error \<Rightarrow> pyval" where
  "failure_output e = PDict [(''success'', PBool False), (''errMsg'', PStr (error_str e))]"

text \<open>
  \<^verbatim>\<open>wrapper\<close>, the function that \<^verbatim>\<open>callback_wrapper(callback, task)\<close> returns and the
  thread runs: the \<^verbatim>\<open>try\<close> block, and the \<^verbatim>\<open>except Exception\<close> block for whatever it
  raised. An exception raised inside the \<^verbatim>\<open>except\<close> block leaves the wrapper.
\<close>

definition callback_wrapper ::
  "config \<Rightarrow> world \<Rightarrow> handler \<Rightarrow> task \<Rightarrow> client
     \<Rightarrow> ((error + unit) \<times> client \<times> event list) option" where
  "callback_wrapper cfg env callback task self =
     (case wrapper_try cfg env callback task self of
        None \<Rightarrow> None
      | Some (Inr _, self1, evs) \<Rightarrow> Some (Inr (), self1, evs)
      | Some (Inl e, self1, evs) \<Rightarrow>
          Some (case update_task_result cfg env (workflowInstanceId task) (taskId task)
                       ''FAILED'' (failure_output e) PNone PNone PNone of
                  (Inl e', evs') \<Rightarrow> (Inl e', self1, evs @ evs')
                | (Inr _, evs') \<Rightarrow>
                    (case del_task (taskId task) self1 of
                       Inl e' \<Rightarrow> (Inl e', self1, evs @ evs')
                     | Inr self' \<Rightarrow> (Inr (), self', evs @ evs'))))"

subsection \<open>The polling loop\<close>






subsection \<open>set_all_tasks_to_failed_state\<close>

text \<open>The fixed output of the restart report; \<^verbatim>\<open>errMsg\<close> is the source's literal in UTF-8.\<close>

definition restart_output :: pyval where
  "restart_output =
     PDict [(''success'', PBool False),
            (''errMsg'', PStr (''worker '' @
               [CHR 0xE5, CHR 0xB7, CHR 0xB2, CHR 0xE9, CHR 0x87, CHR 0x8D, CHR 0xE5, CHR 0x90,
                CHR 0xAF, CHR 0xEF, CHR 0xBC, CHR 0x8C, CHR 0xE8, CHR 0xAF, CHR 0xB7, CHR 0xE9,
                CHR 0x87, CHR 0x8D, CHR 0xE6, CHR 0x96, CHR 0xB0, CHR 0xE8, CHR 0xBF, CHR 0x90,
                CHR 0xE8, CHR 0xA1, CHR 0x8C]))]"

text \<open>
  \<^verbatim>\<open>for task_id in running_task_ids\<close>, over the keys still to visit. A report call that
  raises ends the loop: nothing in the method catches it.
\<close>

fun fail_tasks :: "config \<Rightarrow> world \<Rightarrow> client \<Rightarrow> string list \<Rightarrow> (error + unit) \<times> event list" where
  "fail_tasks cfg env self [] = (Inr (), [])"
| "fail_tasks cfg env self (task_id # rest) =
     (case map_of (tasks self) task_id of
        None \<Rightarrow> (Inl (KeyError task_id), [])
      | Some task \<Rightarrow>
          (case update_task_result cfg env (workflowInstanceId task) task_id
                  ''FAILED'' restart_output PNone PNone PNone of
             (Inl e, evs) \<Rightarrow> (Inl e, evs)
           | (Inr _, evs) \<Rightarrow>
               (case fail_tasks cfg env self rest of
                  (r, evs') \<Rightarrow> (r, evs @ evs'))))"

definition set_all_tasks_to_failed_state ::
  "config \<Rightarrow> world \<Rightarrow> client \<Rightarrow> (error + unit) \<times> client \<times> event list" where
  "set_all_tasks_to_failed_state cfg env self =
     (case fail_tasks cfg env self (map fst (tasks self)) of
        (r, evs) \<Rightarrow> (r, self, evs))"

section \<open>Observations and scenarios\<close>

subsection \<open>Reading a trace\<close>

text \<open>The bodies of the report POSTs started in a trace, in order.\<close>

fun posts :: "event list \<Rightarrow> body list" where
  "posts [] = []"
| "posts (TasksPost b # evs) = b # posts evs"
| "posts (_ # evs) = posts evs"


text \<open>
  A report body carries an output either inline, with no storage path, or as an empty
  inline output with the storage path of the task.
\<close>

definition carries_output :: "string \<Rightarrow> pyval \<Rightarrow> body \<Rightarrow> bool" where
  "carries_output task_id output_data b =
     (map_of b ''outputData'' = Some output_data
        \<and> map_of b ''externalOutputPayloadStoragePath'' = None
      \<or> map_of b ''outputData'' = Some (PDict [])
        \<and> map_of b ''externalOutputPayloadStoragePath''
            = Some (PStr (''task/output/'' @ task_id @ ''.json'')))"

text \<open>
  The terminal report that belongs to an outcome of the handler call: COMPLETED with the
  result, or FAILED with the stringified exception.
\<close>

fun terminal_report :: "error + pyval \<Rightarrow> string \<times> pyval" where
  "terminal_report (Inr result) = (''COMPLETED'', result)"
| "terminal_report (Inl e) = (''FAILED'', failure_output e)"

subsection \<open>The parent chain as the orchestrator answers it\<close>

text \<open>
  \<open>ancestor env w n\<close> is the execution reached from \<open>w\<close> by \<open>n\<close> parent links, when the
  orchestrator answers each of them; \<open>has_no_parent\<close> says that the orchestrator answers
  for an execution and names no parent; \<open>lineage env w n\<close> lists the executions from \<open>w\<close>
  up to its ancestor at depth \<open>n\<close>.
\<close>

fun ancestor :: "world \<Rightarrow> string \<Rightarrow> nat \<Rightarrow> string option" where
  "ancestor env w 0 = Some w"
| "ancestor env w (Suc n) =
     (case workflow_get env w of
        Inr (Some parent) \<Rightarrow> if parent \<noteq> [] then ancestor env parent n else None
      | _ \<Rightarrow> None)"

definition has_no_parent :: "world \<Rightarrow> string \<Rightarrow> bool" where
  "has_no_parent env w =
     (case workflow_get env w of
        Inl e \<Rightarrow> False
      | Inr None \<Rightarrow> True
      | Inr (Some parent) \<Rightarrow> parent = [])"

fun lineage :: "world \<Rightarrow> string \<Rightarrow> nat \<Rightarrow> string list" where
  "lineage env w 0 = [w]"
| "lineage env w (Suc n) =
     w # (case workflow_get env w of
            Inr (Some parent) \<Rightarrow> lineage env parent n
          | _ \<Rightarrow> [])"

subsection \<open>The name a handler is bound under, in the words of the specification\<close>

definition prefixed_name :: "config \<Rightarrow> string \<Rightarrow> string" where
  "prefixed_name cfg name =
     (case worker_name_prefix cfg of None \<Rightarrow> name | Some prefix \<Rightarrow> prefix @ name)"

subsection \<open>A concrete world\<close>

text \<open>
  Execution \<open>c2\<close> is a child of \<open>c1\<close>, which is a child of \<open>c0\<close>; \<open>w1\<close> and \<open>x9\<close> have no
  parent. Contexts are cached for \<open>w1\<close> and \<open>c0\<close> only. \<open>sample_json\<close> is what
  \<^verbatim>\<open>json.dumps\<close> prints for the outputs that occur.
\<close>

definition sample_json :: "(pyval \<times> string) list" where
  \<open>sample_json =
     [(PDict [(''width'', PInt 100)],
       ''{"width": 100}''),
      (failure_output (Raised ''disk full''),
       ''{"success": false, "errMsg": "disk full"}''),
      (failure_output (Raised ''connection refused''),
       ''{"success": false, "errMsg": "connection refused"}''),
      (failure_output (Raised ''timeout''),
       ''{"success": false, "errMsg": "timeout"}''),
      (failure_output (ContextNotFoundError ''x9''),
       ''{"success": false, "errMsg": "'' @ [CHR 0x5C] @ ''u65e0'' @ [CHR 0x5C] @ ''u6cd5'' @ [CHR 0x5C] @ ''u83b7'' @ [CHR 0x5C] @ ''u53d6 workflow context for workflowInstanceId=x9"}''),
      (restart_output,
       ''{"success": false, "errMsg": "worker '' @ [CHR 0x5C] @ ''u5df2'' @ [CHR 0x5C] @ ''u91cd'' @ [CHR 0x5C] @ ''u542f'' @ [CHR 0x5C] @ ''uff0c'' @ [CHR 0x5C] @ ''u8bf7'' @ [CHR 0x5C] @ ''u91cd'' @ [CHR 0x5C] @ ''u65b0'' @ [CHR 0x5C] @ ''u8fd0'' @ [CHR 0x5C] @ ''u884c"}'')]\<close>

definition task_t1 :: task where
  "task_t1 = \<lparr> taskId = ''t1'', workflowInstanceId = ''w1'' \<rparr>"

definition task_t2 :: task where
  "task_t2 = \<lparr> taskId = ''t2'', workflowInstanceId = ''c2'' \<rparr>"

definition task_t9 :: task where
  "task_t9 = \<lparr> taskId = ''t9'', workflowInstanceId = ''x9'' \<rparr>"

definition sample_world :: world where
  \<open>sample_world =
     \<lparr> workflow_get = (\<lambda>w. Inr (map_of [(''c2'', ''c1''), (''c1'', ''c0'')] w)),
       redis_get = (\<lambda>k. Inr (map_of [(''workflow:context:w1'', ''{}''),
                                      (''workflow:context:c0'', ''{"user": "u1"}'')] k)),
       json_loads = (\<lambda>s. case map_of [(''{}'', PDict []),
                                       (''{"user": "u1"}'', PDict [(''user'', PStr ''u1'')])] s of
                            None \<Rightarrow> Inl (Raised ''JSONDecodeError'')
                          | Some v \<Rightarrow> Inr v),
       json_dumps = (\<lambda>v. case map_of sample_json v of
                            None \<Rightarrow> Inl (Raised ''TypeError'')
                          | Some s \<Rightarrow> Inr s),
       tasks_post = (\<lambda>b. None),
       poll_batch = (\<lambda>task_type wid n.
                       Inr (case map_of [(''resize_image'', [task_t1]),
                                         (''crop_image'', [task_t2])] task_type of
                              None \<Rightarrow> []
                            | Some polled \<Rightarrow> polled)) \<rparr>\<close>

text \<open>The same world with the orchestrator's task endpoint unreachable.\<close>

definition down_world :: world where
  "down_world = sample_world\<lparr> tasks_post := (\<lambda>b. Some (Raised ''connection refused'')) \<rparr>"

text \<open>The same world where only the POST of a COMPLETED report fails.\<close>

definition flaky_world :: world where
  "flaky_world =
     sample_world\<lparr> tasks_post :=
       (\<lambda>b. if map_of b ''status'' = Some (PStr ''COMPLETED'')
             then Some (Raised ''timeout'') else None) \<rparr>"

text \<open>A configuration that externalizes every output, with a storage that accepts uploads.\<close>

definition offload_config :: config where
  "offload_config =
     (default_config ''worker-1'')
       \<lparr> task_output_payload_size_threshold_kb := 0,
         external_storage := Some (\<lambda>key obj_bytes. None) \<rparr>"

text \<open>A configuration that externalizes every output and has no storage (the default).\<close>

definition no_storage_config :: config where
  "no_storage_config =
     (default_config ''worker-1'')\<lparr> task_output_payload_size_threshold_kb := 0 \<rparr>"


text \<open>The sample world where the POST of a report for task \<open>t2\<close> fails.\<close>

definition t2_down_world :: world where
  "t2_down_world =
     sample_world\<lparr> tasks_post :=
       (\<lambda>b. if map_of b ''taskId'' = Some (PStr ''t2'')
             then Some (Raised ''connection refused'') else None) \<rparr>"

definition resize_handler :: handler where
  "resize_handler = (\<lambda>task workflow_context. Inr (PDict [(''width'', PInt 100)]))"

definition failing_handler :: handler where
  "failing_handler = (\<lambda>task workflow_context. Inl (Raised ''disk full''))"

definition empty_handler :: handler where
  "empty_handler = (\<lambda>task workflow_context. Inr (PDict []))"

definition sample_client :: client where
  "sample_client =
     \<lparr> task_types = [(''resize_image'', resize_handler), (''crop_image'', resize_handler)],
       tasks = [(''t1'', task_t1), (''t2'', task_t2), (''t9'', task_t9)] \<rparr>"

section \<open>Properties\<close>

subsection \<open>Traces\<close>

lemma posts_append: "posts (xs @ ys) = posts xs @ posts ys"
  by (induction xs rule: posts.induct) auto


lemma posts_map_WorkflowGet: "posts (map WorkflowGet ws) = []"
  by (induction ws) auto

subsection \<open>The parent walk\<close>

lemma walk_reaches_root:
  "ancestor env w n = Some root_id \<Longrightarrow> has_no_parent env root_id \<Longrightarrow>
   get_real_workflow_instance_id_start_by_server env w =
     Some (Inr root_id, map WorkflowGet (lineage env w n))"
proof (induction n arbitrary: w)
  case 0
  then show ?case
    by (subst get_real_workflow_instance_id_start_by_server.simps)
       (auto simp: has_no_parent_def split: sum.splits option.splits)
next
  case (Suc n)
  from Suc.prems(1) obtain parent where p: "workflow_get env w = Inr (Some parent)"
    "parent \<noteq> []" "ancestor env parent n = Some root_id"
    by (auto split: sum.splits option.splits if_splits)
  from Suc.IH[OF p(3) Suc.prems(2)] p(1,2) show ?case
    by (subst get_real_workflow_instance_id_start_by_server.simps) simp
qed

lemma walk_no_posts_aux:
  assumes "get_real_workflow_instance_id_start_by_server env w = Some y"
  shows "posts (snd y) = []"
  by (rule get_real_workflow_instance_id_start_by_server.raw_induct
            [where P = "\<lambda>env w y. posts (snd y) = []", OF _ assms])
     (auto split: sum.splits option.splits if_splits prod.splits simp: bind_eq_Some_conv)

lemma context_no_posts:
  "get_workflow_context env w = Some (r, evs) \<Longrightarrow> posts evs = []"
  by (auto simp: get_workflow_context_def Let_def posts_append
           split: option.splits sum.splits prod.splits dest: walk_no_posts_aux)

lemma call_handler_no_posts:
  "call_handler env callback task = Some (r, evs) \<Longrightarrow> posts evs = []"
  by (auto simp: call_handler_def split: option.splits sum.splits prod.splits
           dest: context_no_posts)

text \<open>
  C5. For an execution whose parent chain has depth \<open>n\<close> and ends in a root, context
  resolution returns the context cached under the key of that root (the ancestor at depth
  \<open>n\<close>; for \<open>n = 0\<close> the execution itself), after one orchestrator request per execution
  of the chain and one cache read.
\<close>

theorem get_workflow_context_of_root:
  assumes "ancestor env w n = Some root_id"
    and "has_no_parent env root_id"
    and "redis_get env (get_workflow_context_cache_key root_id) = Inr (Some str_result)"
    and "json_loads env str_result = Inr ctx"
  shows "get_workflow_context env w =
           Some (Inr ctx, map WorkflowGet (lineage env w n)
                          @ [RedisGet (get_workflow_context_cache_key root_id)])"
  using assms by (simp add: get_workflow_context_def walk_reaches_root)

theorem get_workflow_context_of_root_witness:
  \<open>ancestor sample_world ''c2'' 2 = Some ''c0''
   \<and> has_no_parent sample_world ''c0''
   \<and> redis_get sample_world (get_workflow_context_cache_key ''c0'') = Inr (Some ''{"user": "u1"}'')
   \<and> json_loads sample_world ''{"user": "u1"}'' = Inr (PDict [(''user'', PStr ''u1'')])
   \<and> get_workflow_context sample_world ''c2'' =
       Some (Inr (PDict [(''user'', PStr ''u1'')]),
             [WorkflowGet ''c2'', WorkflowGet ''c1'', WorkflowGet ''c0'',
              RedisGet ''workflow:context:c0''])
   \<and> ancestor sample_world ''w1'' 0 = Some ''w1''
   \<and> get_workflow_context sample_world ''w1'' =
       Some (Inr (PDict []), [WorkflowGet ''w1'', RedisGet ''workflow:context:w1''])\<close>
proof -
  have a: "ancestor sample_world ''c2'' 2 = Some ''c0''"
    by (simp add: numeral_2_eq_2 sample_world_def)
  have b: "has_no_parent sample_world ''c0''"
    by (simp add: has_no_parent_def sample_world_def)
  have c: \<open>redis_get sample_world (get_workflow_context_cache_key ''c0'')
             = Inr (Some ''{"user": "u1"}'')\<close>
    by (simp add: get_workflow_context_cache_key_def sample_world_def)
  have d: \<open>json_loads sample_world ''{"user": "u1"}'' = Inr (PDict [(''user'', PStr ''u1'')])\<close>
    by (simp add: sample_world_def)
  have l: "lineage sample_world ''c2'' 2 = [''c2'', ''c1'', ''c0'']"
    by (simp add: numeral_2_eq_2 sample_world_def)
  have a': "ancestor sample_world ''w1'' 0 = Some ''w1''" by simp
  have b': "has_no_parent sample_world ''w1''"
    by (simp add: has_no_parent_def sample_world_def)
  have c': \<open>redis_get sample_world (get_workflow_context_cache_key ''w1'') = Inr (Some ''{}'')\<close>
    by (simp add: get_workflow_context_cache_key_def sample_world_def)
  have d': \<open>json_loads sample_world ''{}'' = Inr (PDict [])\<close>
    by (simp add: sample_world_def)
  from get_workflow_context_of_root [OF a b c d] get_workflow_context_of_root [OF a' b' c' d']
  show ?thesis
    using a b c d a' by (simp add: l get_workflow_context_cache_key_def)
qed

text \<open>
  C6. A status other than COMPLETED and FAILED makes \<^verbatim>\<open>update_task_result\<close> raise at
  once: the trace is empty (no upload, no POST), whatever the world, so that the JSON codec is
  not consulted either.
\<close>

theorem update_task_result_invalid_status:
  assumes "status \<noteq> ''COMPLETED''" and "status \<noteq> ''FAILED''"
  shows "update_task_result cfg env workflow_instance_id task_id status
           output_data reason_for_incompletion callback_after_seconds wid
         = (Inl InvalidStatusError, [])"
  using assms by (simp add: update_task_result_def)

theorem update_task_result_invalid_status_witness:
  "''RUNNING'' \<noteq> ''COMPLETED'' \<and> ''RUNNING'' \<noteq> ''FAILED''
   \<and> update_task_result (default_config ''worker-1'') sample_world ''w1'' ''t1'' ''RUNNING''
        (PDict [(''width'', PInt 100)]) PNone PNone PNone
      = (Inl InvalidStatusError, [])"
proof -
  have a: "''RUNNING'' \<noteq> ''COMPLETED''" by simp
  have b: "''RUNNING'' \<noteq> ''FAILED''" by simp
  from update_task_result_invalid_status [OF a b] a b show ?thesis by simp
qed

subsection \<open>The result reporter\<close>

lemma attach_output_data_no_posts:
  "posts (snd (attach_output_data cfg env task_id output_data b)) = []"
  by (simp add: attach_output_data_def Let_def split: sum.split option.split)

lemma update_task_result_posts_le1:
  "length (posts (snd (update_task_result cfg env w t status out r c wid))) \<le> 1"
proof (cases "attach_output_data cfg env t out
                [(''workflowInstanceId'', PStr w), (''taskId'', PStr t),
                 (''status'', PStr status), (''workerId'', PStr (worker_id cfg))]")
  case (Pair a evs)
  with attach_output_data_no_posts [of cfg env t out] have "posts evs = []"
    by (metis snd_conv)
  with Pair show ?thesis
    by (simp add: update_task_result_def posts_append split: sum.split option.split)
qed

lemma attach_optional_fields_none [simp]: "attach_optional_fields PNone PNone PNone b = b"
  by (simp add: attach_optional_fields_def)

text \<open>A report call with a truthy output that serializes to at most the threshold.\<close>

lemma update_task_result_inline:
  assumes "status = ''COMPLETED'' \<or> status = ''FAILED''"
    and "truthy output_data"
    and "json_dumps env output_data = Inr obj_bytes"
    and "\<not> (of_nat (length obj_bytes) / 1024 :: rat)
             > of_int (task_output_payload_size_threshold_kb cfg)"
  shows "update_task_result cfg env w t status output_data PNone PNone PNone =
           (case tasks_post env
                   [(''workflowInstanceId'', PStr w), (''taskId'', PStr t),
                    (''status'', PStr status), (''workerId'', PStr (worker_id cfg)),
                    (''outputData'', output_data)] of
              Some e \<Rightarrow> Inl e | None \<Rightarrow> Inr (),
            [TasksPost [(''workflowInstanceId'', PStr w), (''taskId'', PStr t),
                        (''status'', PStr status), (''workerId'', PStr (worker_id cfg)),
                        (''outputData'', output_data)]])"
proof -
  have "attach_output_data cfg env t output_data
          [(''workflowInstanceId'', PStr w), (''taskId'', PStr t),
           (''status'', PStr status), (''workerId'', PStr (worker_id cfg))]
        = (Inr [(''workflowInstanceId'', PStr w), (''taskId'', PStr t),
                (''status'', PStr status), (''workerId'', PStr (worker_id cfg)),
                (''outputData'', output_data)], [])"
    using assms(2-4) by (simp add: attach_output_data_def Let_def)
  with assms(1) show ?thesis
    by (auto simp: update_task_result_def split: option.split)
qed

subsection \<open>The executor\<close>

lemma call_handler_context_raises:
  "get_workflow_context env (workflowInstanceId task) = Some (Inl e, evs) \<Longrightarrow>
   call_handler env callback task = Some (Inl e, evs)"
  by (simp add: call_handler_def)

lemma callback_wrapper_failure_path:
  assumes "call_handler env callback task = Some (Inl e, evs)"
  shows "callback_wrapper cfg env callback task self =
           Some (case update_task_result cfg env (workflowInstanceId task) (taskId task)
                        ''FAILED'' (failure_output e) PNone PNone PNone of
                   (Inl e', evs') \<Rightarrow> (Inl e', self, evs @ evs')
                 | (Inr _, evs') \<Rightarrow>
                     (case del_task (taskId task) self of
                        Inl e' \<Rightarrow> (Inl e', self, evs @ evs')
                      | Inr self' \<Rightarrow> (Inr (), self', evs @ evs')))"
  using assms by (simp add: callback_wrapper_def wrapper_try_def)

text \<open>
  C9. When the handler is called and returns a falsy value (for instance the empty mapping),
  the wrapper returns with the state as it was, the entry of the task still in
  \<^verbatim>\<open>tasks\<close>, and a trace that holds the events of context resolution only, so no report
  body; it is the outcome of the run in which the handler returns \<^verbatim>\<open>None\<close>.
\<close>

theorem falsy_result_takes_async_path:
  assumes "call_handler env callback task = Some (Inr result, evs)"
    and "\<not> truthy result"
  shows "callback_wrapper cfg env callback task self = Some (Inr (), self, evs)
       \<and> posts evs = []
       \<and> callback_wrapper cfg env (\<lambda>task workflow_context. Inr PNone) task self
           = callback_wrapper cfg env callback task self"
proof -
  have w: "callback_wrapper cfg env callback task self = Some (Inr (), self, evs)"
    using assms by (simp add: callback_wrapper_def wrapper_try_def)
  from assms(1) obtain workflow_context where
    "get_workflow_context env (workflowInstanceId task) = Some (Inr workflow_context, evs)"
    by (auto simp: call_handler_def split: option.splits sum.splits prod.splits)
  then have "call_handler env (\<lambda>task workflow_context. Inr PNone) task = Some (Inr PNone, evs)"
    by (simp add: call_handler_def)
  then have n: "callback_wrapper cfg env (\<lambda>task workflow_context. Inr PNone) task self
                  = Some (Inr (), self, evs)"
    by (simp add: callback_wrapper_def wrapper_try_def)
  from w n call_handler_no_posts [OF assms(1)] show ?thesis by simp
qed

theorem falsy_result_takes_async_path_witness:
  "call_handler sample_world empty_handler task_t1
     = Some (Inr (PDict []), [WorkflowGet ''w1'', RedisGet ''workflow:context:w1''])
   \<and> \<not> truthy (PDict [])
   \<and> callback_wrapper (default_config ''worker-1'') sample_world empty_handler task_t1
        sample_client
      = Some (Inr (), sample_client, [WorkflowGet ''w1'', RedisGet ''workflow:context:w1''])
   \<and> map_of (tasks sample_client) ''t1'' = Some task_t1"
proof -
  have a: "call_handler sample_world empty_handler task_t1
     = Some (Inr (PDict []), [WorkflowGet ''w1'', RedisGet ''workflow:context:w1''])"
    by (simp add: call_handler_def get_workflow_context_def task_t1_def empty_handler_def
          get_real_workflow_instance_id_start_by_server.simps [of _ "''w1''"]
          get_workflow_context_cache_key_def sample_world_def)
  have b: "\<not> truthy (PDict [])" by simp
  have c: "map_of (tasks sample_client) ''t1'' = Some task_t1"
    by (simp add: sample_client_def)
  from falsy_result_takes_async_path [OF a b] a b c show ?thesis by blast
qed

text \<open>
  C8. \<^verbatim>\<open>register_handler\<close> binds the handler under the prefixed name when a prefix is
  configured and under the bare name otherwise, leaves every other binding and the in-flight
  tasks as they were, and a second registration under the same name replaces the first: the
  state is the one that the second registration alone produces.
\<close>

theorem register_handler_last_write_wins:
  "map_of (task_types (register_handler cfg name callback self))
     = (map_of (task_types self))(prefixed_name cfg name \<mapsto> callback)
   \<and> tasks (register_handler cfg name callback self) = tasks self
   \<and> register_handler cfg name callback2 (register_handler cfg name callback1 self)
       = register_handler cfg name callback2 self"
  by (auto simp: register_handler_def prefixed_name_def Let_def update_conv'
           split: option.split)

theorem register_handler_last_write_wins_witness:
  "map_of (task_types
      (register_handler ((default_config ''worker-1'')\<lparr>worker_name_prefix := Some ''vines_''\<rparr>)
         ''resize_image'' failing_handler
         (register_handler ((default_config ''worker-1'')\<lparr>worker_name_prefix := Some ''vines_''\<rparr>)
            ''resize_image'' resize_handler sample_client)))
     ''vines_resize_image'' = Some failing_handler
   \<and> map_of (task_types (register_handler (default_config ''worker-1'')
                 ''resize_image'' failing_handler sample_client))
       ''resize_image'' = Some failing_handler"
proof -
  let ?cfg = "(default_config ''worker-1'')\<lparr>worker_name_prefix := Some ''vines_''\<rparr>"
  have p: "prefixed_name ?cfg ''resize_image'' = ''vines_resize_image''"
    by (simp add: prefixed_name_def)
  have q: "prefixed_name (default_config ''worker-1'') ''resize_image'' = ''resize_image''"
    by (simp add: prefixed_name_def default_config_def)
  have "map_of (task_types (register_handler ?cfg ''resize_image'' failing_handler
                  (register_handler ?cfg ''resize_image'' resize_handler sample_client)))
          ''vines_resize_image'' = Some failing_handler"
    using register_handler_last_write_wins
            [of ?cfg "''resize_image''" failing_handler
                "register_handler ?cfg ''resize_image'' resize_handler sample_client"]
    by (simp add: p)
  moreover have "map_of (task_types (register_handler (default_config ''worker-1'')
                 ''resize_image'' failing_handler sample_client))
       ''resize_image'' = Some failing_handler"
    using register_handler_last_write_wins
            [of "default_config ''worker-1''" "''resize_image''" failing_handler sample_client]
    by (simp add: q)
  ultimately show ?thesis by blast
qed

subsection \<open>The polling loop\<close>



subsection \<open>The body that a report call posts\<close>

lemma attach_output_data_fields:
  assumes "attach_output_data cfg env t out body = (Inr b1, evs)"
    and "truthy out"
    and "map_of body ''externalOutputPayloadStoragePath'' = None"
  shows "carries_output t out b1
       \<and> (\<forall>k. k \<noteq> ''outputData'' \<longrightarrow> k \<noteq> ''externalOutputPayloadStoragePath''
               \<longrightarrow> map_of b1 k = map_of body k)"
  using assms
  by (auto simp: attach_output_data_def Let_def carries_output_def update_conv'
           split: sum.splits option.splits if_splits)

lemma update_task_result_posted_body:
  assumes "b \<in> set (posts (snd (update_task_result cfg env w t status out PNone PNone PNone)))"
    and "truthy out"
  shows "map_of b ''workflowInstanceId'' = Some (PStr w)
       \<and> map_of b ''taskId'' = Some (PStr t)
       \<and> map_of b ''status'' = Some (PStr status)
       \<and> map_of b ''reasonForIncompletion'' = None
       \<and> carries_output t out b"
proof -
  let ?body = "[(''workflowInstanceId'', PStr w), (''taskId'', PStr t),
                (''status'', PStr status), (''workerId'', PStr (worker_id cfg))]"
  obtain a evs where at: "attach_output_data cfg env t out ?body = (a, evs)"
    by (cases "attach_output_data cfg env t out ?body")
  from attach_output_data_no_posts [of cfg env t out ?body] at have np: "posts evs = []"
    by simp
  show ?thesis
  proof (cases a)
    case (Inl e)
    with assms(1) at np show ?thesis
      by (simp add: update_task_result_def split: if_splits)
  next
    case (Inr b1)
    with assms(1) at np have "b = b1"
      by (simp add: update_task_result_def posts_append split: if_splits option.splits)
    moreover have "map_of ?body ''externalOutputPayloadStoragePath'' = None" by simp
    from attach_output_data_fields [OF at [unfolded Inr] assms(2) this]
    have "carries_output t out b1"
      and "map_of b1 ''workflowInstanceId'' = map_of ?body ''workflowInstanceId''"
      and "map_of b1 ''taskId'' = map_of ?body ''taskId''"
      and "map_of b1 ''status'' = map_of ?body ''status''"
      and "map_of b1 ''reasonForIncompletion'' = map_of ?body ''reasonForIncompletion''"
      by simp_all
    ultimately show ?thesis by simp
  qed
qed

lemma update_task_result_returns:
  assumes "update_task_result cfg env w t status out r c wid = (Inr u, evs)"
  shows "\<exists>b. posts evs = [b] \<and> tasks_post env b = None"
proof -
  let ?body = "[(''workflowInstanceId'', PStr w), (''taskId'', PStr t),
                (''status'', PStr status), (''workerId'', PStr (worker_id cfg))]"
  obtain a evs0 where at: "attach_output_data cfg env t out ?body = (a, evs0)"
    by (cases "attach_output_data cfg env t out ?body")
  from attach_output_data_no_posts [of cfg env t out ?body] at have np: "posts evs0 = []"
    by simp
  from assms at np show ?thesis
    by (cases a) (auto simp: update_task_result_def posts_append split: if_splits option.splits)
qed

lemma attach_optional_fields_lookup:
  "k \<noteq> ''reasonForIncompletion'' \<Longrightarrow> k \<noteq> ''callbackAfterSeconds'' \<Longrightarrow> k \<noteq> ''workerId''
   \<Longrightarrow> map_of (attach_optional_fields r c wid b) k = map_of b k"
  by (simp add: attach_optional_fields_def Let_def update_conv')

text \<open>
  C3, as the code has it. The block is guarded by \<^verbatim>\<open>if output_data:\<close>, the truth value
  of the output. For a valid status and a truthy output that serializes: at or below the
  threshold the only event is the POST of a body with the output inline and no storage-path
  field; above the threshold, with a storage whose upload returns, the bytes are uploaded
  under \<open>task/output/<task id>.json\<close> and the body posted next has the empty mapping as
  \<open>outputData\<close> and that key as \<open>externalOutputPayloadStoragePath\<close>. A falsy output, the
  empty mapping included, is not serialized and the posted body has neither field. The default
  threshold is 1024.
\<close>

theorem update_task_result_output_placement:
  assumes "status = ''COMPLETED'' \<or> status = ''FAILED''"
  shows "(truthy output_data \<and> json_dumps env output_data = Inr obj_bytes
            \<and> \<not> (of_nat (length obj_bytes) / 1024 :: rat)
                   > of_int (task_output_payload_size_threshold_kb cfg)
          \<longrightarrow> (\<exists>b. snd (update_task_result cfg env w t status output_data r c wid)
                       = [TasksPost b]
                   \<and> map_of b ''outputData'' = Some output_data
                   \<and> map_of b ''externalOutputPayloadStoragePath'' = None))
       \<and> (truthy output_data \<and> json_dumps env output_data = Inr obj_bytes
            \<and> (of_nat (length obj_bytes) / 1024 :: rat)
                   > of_int (task_output_payload_size_threshold_kb cfg)
            \<and> external_storage cfg = Some upload_bytes
            \<and> upload_bytes (''task/output/'' @ t @ ''.json'') obj_bytes = None
          \<longrightarrow> (\<exists>b. snd (update_task_result cfg env w t status output_data r c wid)
                       = [UploadBytes (''task/output/'' @ t @ ''.json'') obj_bytes, TasksPost b]
                   \<and> map_of b ''outputData'' = Some (PDict [])
                   \<and> map_of b ''externalOutputPayloadStoragePath''
                       = Some (PStr (''task/output/'' @ t @ ''.json''))
                   \<and> ''task/output/'' @ t @ ''.json'' \<noteq> []))
       \<and> (\<not> truthy output_data
          \<longrightarrow> (\<exists>b. snd (update_task_result cfg env w t status output_data r c wid)
                       = [TasksPost b]
                   \<and> map_of b ''outputData'' = None
                   \<and> map_of b ''externalOutputPayloadStoragePath'' = None))
       \<and> task_output_payload_size_threshold_kb (default_config worker) = 1024"
proof -
  let ?body = "[(''workflowInstanceId'', PStr w), (''taskId'', PStr t),
                (''status'', PStr status), (''workerId'', PStr (worker_id cfg))]"
  let ?key = "''task/output/'' @ t @ ''.json''"
  have inline: "\<exists>b. snd (update_task_result cfg env w t status output_data r c wid)
                       = [TasksPost b]
                   \<and> map_of b ''outputData'' = Some output_data
                   \<and> map_of b ''externalOutputPayloadStoragePath'' = None"
    if "truthy output_data" "json_dumps env output_data = Inr obj_bytes"
      "\<not> (of_nat (length obj_bytes) / 1024 :: rat)
           > of_int (task_output_payload_size_threshold_kb cfg)"
  proof -
    have "attach_output_data cfg env t output_data ?body
            = (Inr (AList.update ''outputData'' output_data ?body), [])"
      using that by (simp add: attach_output_data_def Let_def)
    with assms show ?thesis
      by (auto simp: update_task_result_def attach_optional_fields_lookup
               split: option.split)
  qed
  have external: "\<exists>b. snd (update_task_result cfg env w t status output_data r c wid)
                       = [UploadBytes ?key obj_bytes, TasksPost b]
                   \<and> map_of b ''outputData'' = Some (PDict [])
                   \<and> map_of b ''externalOutputPayloadStoragePath'' = Some (PStr ?key)
                   \<and> ?key \<noteq> []"
    if "truthy output_data" "json_dumps env output_data = Inr obj_bytes"
      "(of_nat (length obj_bytes) / 1024 :: rat)
           > of_int (task_output_payload_size_threshold_kb cfg)"
      "external_storage cfg = Some upload_bytes"
      "upload_bytes ?key obj_bytes = None"
  proof -
    have "attach_output_data cfg env t output_data ?body
            = (Inr (AList.update ''externalOutputPayloadStoragePath'' (PStr ?key)
                      (AList.update ''outputData'' (PDict []) ?body)),
               [UploadBytes ?key obj_bytes])"
      using that by (simp add: attach_output_data_def Let_def)
    with assms show ?thesis
      by (auto simp: update_task_result_def attach_optional_fields_lookup
               split: option.split)
  qed
  have absent: "\<exists>b. snd (update_task_result cfg env w t status output_data r c wid)
                       = [TasksPost b]
                   \<and> map_of b ''outputData'' = None
                   \<and> map_of b ''externalOutputPayloadStoragePath'' = None"
    if "\<not> truthy output_data"
  proof -
    have "attach_output_data cfg env t output_data ?body = (Inr ?body, [])"
      using that by (simp add: attach_output_data_def)
    with assms show ?thesis
      by (auto simp: update_task_result_def attach_optional_fields_lookup
               split: option.split)
  qed
  have "task_output_payload_size_threshold_kb (default_config worker) = 1024"
    by (simp add: default_config_def)
  with inline external absent show ?thesis by blast
qed

theorem update_task_result_output_placement_witness:
  \<open>(''COMPLETED'' = ''COMPLETED'' \<or> ''COMPLETED'' = ''FAILED'')
   \<and> truthy (PDict [(''width'', PInt 100)])
   \<and> json_dumps sample_world (PDict [(''width'', PInt 100)]) = Inr ''{"width": 100}''
   \<and> (\<exists>b. snd (update_task_result (default_config ''worker-1'') sample_world ''w1'' ''t1''
                   ''COMPLETED'' (PDict [(''width'', PInt 100)]) PNone PNone PNone)
             = [TasksPost b]
          \<and> map_of b ''outputData'' = Some (PDict [(''width'', PInt 100)])
          \<and> map_of b ''externalOutputPayloadStoragePath'' = None)
   \<and> (\<exists>b. snd (update_task_result offload_config sample_world ''w1'' ''t1''
                   ''COMPLETED'' (PDict [(''width'', PInt 100)]) PNone PNone PNone)
             = [UploadBytes ''task/output/t1.json'' ''{"width": 100}'', TasksPost b]
          \<and> map_of b ''outputData'' = Some (PDict [])
          \<and> map_of b ''externalOutputPayloadStoragePath''
              = Some (PStr ''task/output/t1.json''))\<close>
proof -
  have s: "''COMPLETED'' = ''COMPLETED'' \<or> ''COMPLETED'' = ''FAILED''" by simp
  have t: "truthy (PDict [(''width'', PInt 100)])" by simp
  have d: \<open>json_dumps sample_world (PDict [(''width'', PInt 100)]) = Inr ''{"width": 100}''\<close>
    by (simp add: sample_world_def sample_json_def)
  have small: \<open>\<not> (of_nat (length ''{"width": 100}'') / 1024 :: rat)
                   > of_int (task_output_payload_size_threshold_kb (default_config ''worker-1''))\<close>
    by (simp add: default_config_def)
  have big: \<open>(of_nat (length ''{"width": 100}'') / 1024 :: rat)
                   > of_int (task_output_payload_size_threshold_kb offload_config)\<close>
    by (simp add: offload_config_def)
  have st: "external_storage offload_config = Some (\<lambda>key obj_bytes. None)"
    by (simp add: offload_config_def)
  have i: \<open>\<exists>b. snd (update_task_result (default_config ''worker-1'') sample_world ''w1'' ''t1''
                   ''COMPLETED'' (PDict [(''width'', PInt 100)]) PNone PNone PNone)
             = [TasksPost b]
          \<and> map_of b ''outputData'' = Some (PDict [(''width'', PInt 100)])
          \<and> map_of b ''externalOutputPayloadStoragePath'' = None\<close>
    using update_task_result_output_placement [OF s, THEN conjunct1, rule_format,
            OF conjI [OF t conjI [OF d small]]]
    by blast
  have e: \<open>\<exists>b. snd (update_task_result offload_config sample_world ''w1'' ''t1''
                   ''COMPLETED'' (PDict [(''width'', PInt 100)]) PNone PNone PNone)
             = [UploadBytes ''task/output/t1.json'' ''{"width": 100}'', TasksPost b]
          \<and> map_of b ''outputData'' = Some (PDict [])
          \<and> map_of b ''externalOutputPayloadStoragePath''
              = Some (PStr ''task/output/t1.json'')\<close>
    using update_task_result_output_placement [OF s, THEN conjunct2, THEN conjunct1, rule_format,
            OF conjI [OF t conjI [OF d conjI [OF big conjI [OF st refl]]]],
            where t = "''t1''" and w = "''w1''" and r = PNone and c = PNone and wid = PNone]
    by simp
  from s t d i e show ?thesis by blast
qed

text \<open>
  C3, as the specification has it, fails for an output that is present and falsy: the empty
  mapping serializes to two bytes, below any positive threshold, and the report that is sent
  has no \<open>outputData\<close> field.
\<close>

theorem update_task_result_empty_output_counterexample:
  "update_task_result (default_config ''worker-1'') sample_world ''w1'' ''t1'' ''COMPLETED''
     (PDict []) PNone PNone PNone
   = (Inr (), [TasksPost [(''workflowInstanceId'', PStr ''w1''), (''taskId'', PStr ''t1''),
                          (''status'', PStr ''COMPLETED''), (''workerId'', PStr ''worker-1'')]])
   \<and> map_of [(''workflowInstanceId'', PStr ''w1''), (''taskId'', PStr ''t1''),
             (''status'', PStr ''COMPLETED''), (''workerId'', PStr ''worker-1'')]
        ''outputData'' = None"
  by (simp add: update_task_result_def attach_output_data_def default_config_def
        sample_world_def)

subsection \<open>Reports of the executor\<close>

lemma truthy_failure_output [simp]: "truthy (failure_output e)"
  by (simp add: failure_output_def)

lemma del_task_present:
  "map_of (tasks self) task_id = Some t0 \<Longrightarrow>
   del_task task_id self = Inr (self\<lparr>tasks := AList.delete task_id (tasks self)\<rparr>)"
  by (simp add: del_task_def)

lemma callback_wrapper_sync_path:
  assumes "call_handler env callback task = Some (Inr result, evs)"
    and "truthy result"
    and "update_task_result cfg env (workflowInstanceId task) (taskId task)
           ''COMPLETED'' result PNone PNone PNone = (Inr u, evs')"
    and "del_task (taskId task) self = Inr self'"
  shows "callback_wrapper cfg env callback task self = Some (Inr (), self', evs @ evs')"
  using assms by (simp add: callback_wrapper_def wrapper_try_def)

lemma callback_wrapper_report_raises:
  assumes "call_handler env callback task = Some (Inr result, evs)"
    and "truthy result"
    and "update_task_result cfg env (workflowInstanceId task) (taskId task)
           ''COMPLETED'' result PNone PNone PNone = (Inl e, evs1)"
    and "update_task_result cfg env (workflowInstanceId task) (taskId task)
           ''FAILED'' (failure_output e) PNone PNone PNone = (r2, evs2)"
  shows "callback_wrapper cfg env callback task self =
           Some (case r2 of
                   Inl e' \<Rightarrow> (Inl e', self, evs @ evs1 @ evs2)
                 | Inr _ \<Rightarrow>
                     (case del_task (taskId task) self of
                        Inl e' \<Rightarrow> (Inl e', self, evs @ evs1 @ evs2)
                      | Inr self' \<Rightarrow> (Inr (), self', evs @ evs1 @ evs2)))"
  using assms by (simp add: callback_wrapper_def wrapper_try_def split: sum.split)

text \<open>
  C1, as the code has it. Let the handler call end on the synchronous path (a truthy
  result) or on the failure path (context resolution or the handler raised), let the entry of
  the task be in \<^verbatim>\<open>tasks\<close>, and let the report call for that outcome return. Then the
  wrapper returns, the trace holds exactly one report body, which was accepted, names the
  task, has status COMPLETED with the result or FAILED with
  \<open>{success: False, errMsg: str(e)}\<close> as its output (inline, or externalized when it is over
  the threshold), and the entry of the task is removed from \<^verbatim>\<open>tasks\<close>.
\<close>

theorem executor_reports_once:
  assumes "map_of (tasks self) (taskId task) = Some t0"
    and "call_handler env callback task = Some (outcome, evs)"
    and "case outcome of Inl e \<Rightarrow> True | Inr result \<Rightarrow> truthy result"
    and "update_task_result cfg env (workflowInstanceId task) (taskId task)
           (fst (terminal_report outcome)) (snd (terminal_report outcome))
           PNone PNone PNone = (Inr u, evs')"
  shows "callback_wrapper cfg env callback task self =
           Some (Inr (), self\<lparr>tasks := AList.delete (taskId task) (tasks self)\<rparr>, evs @ evs')
       \<and> (\<exists>b. posts (evs @ evs') = [b]
              \<and> tasks_post env b = None
              \<and> map_of b ''taskId'' = Some (PStr (taskId task))
              \<and> map_of b ''status'' = Some (PStr (fst (terminal_report outcome)))
              \<and> carries_output (taskId task) (snd (terminal_report outcome)) b)
       \<and> map_of (AList.delete (taskId task) (tasks self)) (taskId task) = None"
proof -
  note d = del_task_present [OF assms(1)]
  have w: "callback_wrapper cfg env callback task self =
             Some (Inr (), self\<lparr>tasks := AList.delete (taskId task) (tasks self)\<rparr>, evs @ evs')"
  proof (cases outcome)
    case (Inl e)
    with assms(2,4) d show ?thesis
      by (simp add: callback_wrapper_failure_path)
  next
    case (Inr result)
    with assms(2,3,4) d show ?thesis
      by (simp add: callback_wrapper_sync_path)
  qed
  have t: "truthy (snd (terminal_report outcome))"
    using assms(3) by (cases outcome) simp_all
  from update_task_result_returns [OF assms(4)] obtain b where
    b: "posts evs' = [b]" "tasks_post env b = None"
    by blast
  with update_task_result_posted_body [of b cfg env "workflowInstanceId task" "taskId task"
         "fst (terminal_report outcome)" "snd (terminal_report outcome)"] assms(4) t
  have f: "map_of b ''taskId'' = Some (PStr (taskId task))"
    "map_of b ''status'' = Some (PStr (fst (terminal_report outcome)))"
    "carries_output (taskId task) (snd (terminal_report outcome)) b"
    by simp_all
  from call_handler_no_posts [OF assms(2)] b have "posts (evs @ evs') = [b]"
    by (simp add: posts_append)
  with w b f show ?thesis by (simp add: delete_conv')
qed

subsection \<open>Runs in the concrete worlds\<close>

lemma sample_context_w1:
  "get_workflow_context env ''w1'' =
     Some (Inr (PDict []), [WorkflowGet ''w1'', RedisGet ''workflow:context:w1''])"
  if "workflow_get env = workflow_get sample_world"
    and "redis_get env = redis_get sample_world"
    and "json_loads env = json_loads sample_world"
  using that
  by (simp add: get_workflow_context_def get_workflow_context_cache_key_def sample_world_def
        get_real_workflow_instance_id_start_by_server.simps [of _ "''w1''"])

lemma sample_call_resize:
  "call_handler sample_world resize_handler task_t1 =
     Some (Inr (PDict [(''width'', PInt 100)]),
           [WorkflowGet ''w1'', RedisGet ''workflow:context:w1''])"
  by (simp add: call_handler_def task_t1_def resize_handler_def sample_context_w1)

lemma sample_call_failing:
  "call_handler sample_world failing_handler task_t1 =
     Some (Inl (Raised ''disk full''),
           [WorkflowGet ''w1'', RedisGet ''workflow:context:w1''])"
  by (simp add: call_handler_def task_t1_def failing_handler_def sample_context_w1)

lemma down_call_resize:
  "call_handler down_world resize_handler task_t1 =
     Some (Inr (PDict [(''width'', PInt 100)]),
           [WorkflowGet ''w1'', RedisGet ''workflow:context:w1''])"
  by (simp add: call_handler_def task_t1_def resize_handler_def sample_context_w1
        down_world_def)

lemma flaky_call_resize:
  "call_handler flaky_world resize_handler task_t1 =
     Some (Inr (PDict [(''width'', PInt 100)]),
           [WorkflowGet ''w1'', RedisGet ''workflow:context:w1''])"
  by (simp add: call_handler_def task_t1_def resize_handler_def sample_context_w1
        flaky_world_def)

text \<open>What a report call of these runs does, by the world it runs in.\<close>

lemma sample_report_inline:
  assumes "status = ''COMPLETED'' \<or> status = ''FAILED''"
    and "truthy output_data"
    and "map_of sample_json output_data = Some obj_bytes"
    and "length obj_bytes \<le> 1024"
    and "json_dumps env = json_dumps sample_world"
  shows "update_task_result (default_config ''worker-1'') env w t status output_data
           PNone PNone PNone =
           (case tasks_post env
                   [(''workflowInstanceId'', PStr w), (''taskId'', PStr t),
                    (''status'', PStr status), (''workerId'', PStr ''worker-1''),
                    (''outputData'', output_data)] of
              Some e \<Rightarrow> Inl e | None \<Rightarrow> Inr (),
            [TasksPost [(''workflowInstanceId'', PStr w), (''taskId'', PStr t),
                        (''status'', PStr status), (''workerId'', PStr ''worker-1''),
                        (''outputData'', output_data)]])"
proof -
  have d: "json_dumps env output_data = Inr obj_bytes"
    using assms(3,5) by (simp add: sample_world_def)
  have s: "\<not> (of_nat (length obj_bytes) / 1024 :: rat)
               > of_int (task_output_payload_size_threshold_kb (default_config ''worker-1''))"
    using assms(4) by (simp add: default_config_def)
  from update_task_result_inline [OF assms(1,2) d s, of w t] show ?thesis
    by (simp add: default_config_def)
qed

theorem executor_reports_once_witness:
  "map_of (tasks sample_client) (taskId task_t1) = Some task_t1
   \<and> call_handler sample_world resize_handler task_t1 =
        Some (Inr (PDict [(''width'', PInt 100)]),
              [WorkflowGet ''w1'', RedisGet ''workflow:context:w1''])
   \<and> truthy (PDict [(''width'', PInt 100)])
   \<and> callback_wrapper (default_config ''worker-1'') sample_world resize_handler task_t1
        sample_client =
        Some (Inr (), sample_client\<lparr>tasks := [(''t2'', task_t2), (''t9'', task_t9)]\<rparr>,
              [WorkflowGet ''w1'', RedisGet ''workflow:context:w1'',
               TasksPost [(''workflowInstanceId'', PStr ''w1''), (''taskId'', PStr ''t1''),
                          (''status'', PStr ''COMPLETED''), (''workerId'', PStr ''worker-1''),
                          (''outputData'', PDict [(''width'', PInt 100)])]])
   \<and> call_handler sample_world failing_handler task_t1 =
        Some (Inl (Raised ''disk full''),
              [WorkflowGet ''w1'', RedisGet ''workflow:context:w1''])
   \<and> callback_wrapper (default_config ''worker-1'') sample_world failing_handler task_t1
        sample_client =
        Some (Inr (), sample_client\<lparr>tasks := [(''t2'', task_t2), (''t9'', task_t9)]\<rparr>,
              [WorkflowGet ''w1'', RedisGet ''workflow:context:w1'',
               TasksPost [(''workflowInstanceId'', PStr ''w1''), (''taskId'', PStr ''t1''),
                          (''status'', PStr ''FAILED''), (''workerId'', PStr ''worker-1''),
                          (''outputData'',
                           PDict [(''success'', PBool False),
                                  (''errMsg'', PStr ''disk full'')])]])"
proof -
  let ?cfg = "default_config ''worker-1''"
  have r: "map_of (tasks sample_client) (taskId task_t1) = Some task_t1"
    by (simp add: sample_client_def task_t1_def)
  have dl: "AList.delete (taskId task_t1) (tasks sample_client)
              = [(''t2'', task_t2), (''t9'', task_t9)]"
    by (simp add: sample_client_def task_t1_def)
  have t: "truthy (PDict [(''width'', PInt 100)])" by simp
  have u1: "update_task_result ?cfg sample_world (workflowInstanceId task_t1) (taskId task_t1)
              (fst (terminal_report (Inr (PDict [(''width'', PInt 100)]))))
              (snd (terminal_report (Inr (PDict [(''width'', PInt 100)]))))
              PNone PNone PNone
            = (Inr (),
               [TasksPost [(''workflowInstanceId'', PStr ''w1''), (''taskId'', PStr ''t1''),
                           (''status'', PStr ''COMPLETED''), (''workerId'', PStr ''worker-1''),
                           (''outputData'', PDict [(''width'', PInt 100)])]])"
    by (simp add: sample_report_inline [where obj_bytes = "the (map_of sample_json
                     (PDict [(''width'', PInt 100)]))"] sample_json_def task_t1_def
          sample_world_def)
  have u2: "update_task_result ?cfg sample_world (workflowInstanceId task_t1) (taskId task_t1)
              (fst (terminal_report (Inl (Raised ''disk full''))))
              (snd (terminal_report (Inl (Raised ''disk full''))))
              PNone PNone PNone
            = (Inr (),
               [TasksPost [(''workflowInstanceId'', PStr ''w1''), (''taskId'', PStr ''t1''),
                           (''status'', PStr ''FAILED''), (''workerId'', PStr ''worker-1''),
                           (''outputData'',
                            PDict [(''success'', PBool False),
                                   (''errMsg'', PStr ''disk full'')])]])"
    by (simp add: sample_report_inline [where obj_bytes = "the (map_of sample_json
                     (failure_output (Raised ''disk full'')))"] sample_json_def task_t1_def
          sample_world_def failure_output_def)
  have w1: "callback_wrapper ?cfg sample_world resize_handler task_t1 sample_client =
        Some (Inr (), sample_client\<lparr>tasks := [(''t2'', task_t2), (''t9'', task_t9)]\<rparr>,
              [WorkflowGet ''w1'', RedisGet ''workflow:context:w1'',
               TasksPost [(''workflowInstanceId'', PStr ''w1''), (''taskId'', PStr ''t1''),
                          (''status'', PStr ''COMPLETED''), (''workerId'', PStr ''worker-1''),
                          (''outputData'', PDict [(''width'', PInt 100)])]])"
    using executor_reports_once [OF r sample_call_resize _ u1, THEN conjunct1]
    by (simp add: dl)
  have w2: "callback_wrapper ?cfg sample_world failing_handler task_t1 sample_client =
        Some (Inr (), sample_client\<lparr>tasks := [(''t2'', task_t2), (''t9'', task_t9)]\<rparr>,
              [WorkflowGet ''w1'', RedisGet ''workflow:context:w1'',
               TasksPost [(''workflowInstanceId'', PStr ''w1''), (''taskId'', PStr ''t1''),
                          (''status'', PStr ''FAILED''), (''workerId'', PStr ''worker-1''),
                          (''outputData'',
                           PDict [(''success'', PBool False),
                                  (''errMsg'', PStr ''disk full'')])]])"
    using executor_reports_once [OF r sample_call_failing _ u2, THEN conjunct1]
    by (simp add: dl)
  from r t w1 w2 sample_call_resize sample_call_failing show ?thesis by blast
qed

text \<open>
  C1, as the specification has it, fails when the report call raises. With the task endpoint
  unreachable, a handler that returns a result makes the wrapper start two report sends, the
  COMPLETED one inside the \<^verbatim>\<open>try\<close> block and the FAILED one in the \<^verbatim>\<open>except\<close> block
  that catches its exception; neither is accepted, the second exception leaves the wrapper,
  and the entry of the task is still in \<^verbatim>\<open>tasks\<close>.
\<close>

theorem executor_reports_twice_counterexample:
  "call_handler down_world resize_handler task_t1 =
     Some (Inr (PDict [(''width'', PInt 100)]),
           [WorkflowGet ''w1'', RedisGet ''workflow:context:w1''])
   \<and> callback_wrapper (default_config ''worker-1'') down_world resize_handler task_t1
        sample_client =
        Some (Inl (Raised ''connection refused''), sample_client,
              [WorkflowGet ''w1'', RedisGet ''workflow:context:w1'',
               TasksPost [(''workflowInstanceId'', PStr ''w1''), (''taskId'', PStr ''t1''),
                          (''status'', PStr ''COMPLETED''), (''workerId'', PStr ''worker-1''),
                          (''outputData'', PDict [(''width'', PInt 100)])],
               TasksPost [(''workflowInstanceId'', PStr ''w1''), (''taskId'', PStr ''t1''),
                          (''status'', PStr ''FAILED''), (''workerId'', PStr ''worker-1''),
                          (''outputData'',
                           PDict [(''success'', PBool False),
                                  (''errMsg'', PStr ''connection refused'')])]])
   \<and> map_of (tasks sample_client) ''t1'' = Some task_t1"
proof -
  let ?cfg = "default_config ''worker-1''"
  have u1: "update_task_result ?cfg down_world (workflowInstanceId task_t1) (taskId task_t1)
              ''COMPLETED'' (PDict [(''width'', PInt 100)]) PNone PNone PNone
            = (Inl (Raised ''connection refused''),
               [TasksPost [(''workflowInstanceId'', PStr ''w1''), (''taskId'', PStr ''t1''),
                           (''status'', PStr ''COMPLETED''), (''workerId'', PStr ''worker-1''),
                           (''outputData'', PDict [(''width'', PInt 100)])]])"
    by (simp add: sample_report_inline [where obj_bytes = "the (map_of sample_json
                     (PDict [(''width'', PInt 100)]))"] sample_json_def task_t1_def
          down_world_def)
  have u2: "update_task_result ?cfg down_world (workflowInstanceId task_t1) (taskId task_t1)
              ''FAILED'' (failure_output (Raised ''connection refused'')) PNone PNone PNone
            = (Inl (Raised ''connection refused''),
               [TasksPost [(''workflowInstanceId'', PStr ''w1''), (''taskId'', PStr ''t1''),
                           (''status'', PStr ''FAILED''), (''workerId'', PStr ''worker-1''),
                           (''outputData'',
                            PDict [(''success'', PBool False),
                                   (''errMsg'', PStr ''connection refused'')])]])"
    by (simp add: sample_report_inline [where obj_bytes = "the (map_of sample_json
                     (failure_output (Raised ''connection refused'')))"] sample_json_def
          task_t1_def down_world_def failure_output_def)
  have "callback_wrapper ?cfg down_world resize_handler task_t1 sample_client =
        Some (Inl (Raised ''connection refused''), sample_client,
              [WorkflowGet ''w1'', RedisGet ''workflow:context:w1'',
               TasksPost [(''workflowInstanceId'', PStr ''w1''), (''taskId'', PStr ''t1''),
                          (''status'', PStr ''COMPLETED''), (''workerId'', PStr ''worker-1''),
                          (''outputData'', PDict [(''width'', PInt 100)])],
               TasksPost [(''workflowInstanceId'', PStr ''w1''), (''taskId'', PStr ''t1''),
                          (''status'', PStr ''FAILED''), (''workerId'', PStr ''worker-1''),
                          (''outputData'',
                           PDict [(''success'', PBool False),
                                  (''errMsg'', PStr ''connection refused'')])]])"
    using callback_wrapper_report_raises [OF down_call_resize _ u1 u2, of sample_client]
    by simp
  moreover have "map_of (tasks sample_client) ''t1'' = Some task_t1"
    by (simp add: sample_client_def)
  ultimately show ?thesis using down_call_resize by blast
qed

lemma update_task_result_posts_bound:
  "update_task_result cfg env w t status out r c wid = (x, evs) \<Longrightarrow> length (posts evs) \<le> 1"
  using update_task_result_posts_le1 [of cfg env w t status out r c wid] by simp

lemma callback_wrapper_posts_le2:
  assumes "callback_wrapper cfg env callback task self = Some (r, self', tr)"
  shows "length (posts tr) \<le> 2"
proof -
  from assms obtain outcome evs where ch: "call_handler env callback task = Some (outcome, evs)"
    by (auto simp: callback_wrapper_def wrapper_try_def split: option.splits)
  note p0 = call_handler_no_posts [OF ch]
  let ?w = "workflowInstanceId task" and ?t = "taskId task"
  show ?thesis
  proof (cases outcome)
    case (Inl e)
    obtain r2 evs2 where u: "update_task_result cfg env ?w ?t ''FAILED'' (failure_output e)
                               PNone PNone PNone = (r2, evs2)"
      by (cases "update_task_result cfg env ?w ?t ''FAILED'' (failure_output e)
                   PNone PNone PNone")
    from callback_wrapper_failure_path [OF ch [unfolded Inl], of cfg self] u assms
    have "tr = evs @ evs2"
      by (auto split: sum.splits)
    with p0 update_task_result_posts_bound [OF u] show ?thesis
      by (simp add: posts_append)
  next
    case (Inr result)
    show ?thesis
    proof (cases "truthy result")
      case False
      with ch Inr assms have "tr = evs"
        by (simp add: callback_wrapper_def wrapper_try_def)
      with p0 show ?thesis by simp
    next
      case True
      obtain r1 evs1 where u1: "update_task_result cfg env ?w ?t ''COMPLETED'' result
                               PNone PNone PNone = (r1, evs1)"
        by (cases "update_task_result cfg env ?w ?t ''COMPLETED'' result PNone PNone PNone")
      note b1 = update_task_result_posts_bound [OF u1]
      have "tr = evs @ evs1
            \<or> (\<exists>e. tr = evs @ evs1 @ snd (update_task_result cfg env ?w ?t ''FAILED''
                                            (failure_output e) PNone PNone PNone))"
      proof (cases r1)
        case (Inl e)
        with assms ch \<open>outcome = Inr result\<close> True u1
        have "tr = evs @ evs1 @ snd (update_task_result cfg env ?w ?t ''FAILED''
                                       (failure_output e) PNone PNone PNone)"
          by (auto simp: callback_wrapper_def wrapper_try_def split: sum.splits prod.splits)
        then show ?thesis by blast
      next
        case r1: (Inr u)
        show ?thesis
        proof (cases "del_task ?t self")
          case (Inl e)
          with assms ch \<open>outcome = Inr result\<close> True u1 r1
          have "tr = evs @ evs1 @ snd (update_task_result cfg env ?w ?t ''FAILED''
                                         (failure_output e) PNone PNone PNone)"
            by (auto simp: callback_wrapper_def wrapper_try_def split: sum.splits prod.splits)
          then show ?thesis by blast
        next
          case (Inr s')
          with assms ch \<open>outcome = Inr result\<close> True u1 r1 have "tr = evs @ evs1"
            by (simp add: callback_wrapper_def wrapper_try_def)
          then show ?thesis by blast
        qed
      qed
      then show ?thesis
      proof
        assume "tr = evs @ evs1"
        with p0 b1 show ?thesis by (simp add: posts_append)
      next
        assume "\<exists>e. tr = evs @ evs1 @ snd (update_task_result cfg env ?w ?t ''FAILED''
                                            (failure_output e) PNone PNone PNone)"
        then obtain e where
          "tr = evs @ evs1 @ snd (update_task_result cfg env ?w ?t ''FAILED''
                                    (failure_output e) PNone PNone PNone)" ..
        with p0 b1 update_task_result_posts_le1
               [of cfg env ?w ?t "''FAILED''" "failure_output e" PNone PNone PNone]
        show ?thesis by (simp add: posts_append)
      qed
    qed
  qed
qed

subsection \<open>set_all_tasks_to_failed_state\<close>

lemma truthy_restart_output [simp]: "truthy restart_output"
  by (simp add: restart_output_def)








lemma callback_wrapper_failure_posts_le1:
  assumes "call_handler env callback task = Some (Inl e0, evs)"
    and "callback_wrapper cfg env callback task self = Some (r, self', tr)"
  shows "length (posts tr) \<le> 1"
proof -
  let ?u = "update_task_result cfg env (workflowInstanceId task) (taskId task)
              ''FAILED'' (failure_output e0) PNone PNone PNone"
  from callback_wrapper_failure_path [OF assms(1), of cfg self] assms(2)
  have "tr = evs @ snd ?u"
    by (cases ?u) (auto split: sum.splits)
  with call_handler_no_posts [OF assms(1)]
    update_task_result_posts_le1 [of cfg env "workflowInstanceId task" "taskId task"
      "''FAILED''" "failure_output e0" PNone PNone PNone]
  show ?thesis by (simp add: posts_append)
qed

text \<open>
  C2, as the code has it. The COMPLETED report call is inside the \<^verbatim>\<open>try\<close> block, so
  when it raises, the \<^verbatim>\<open>except\<close> block catches the exception and starts a FAILED report
  call whose \<open>errMsg\<close> is that exception's message; the wrapper then ends as that second
  call ends. On the failure path the wrapper makes one FAILED report call and nothing else:
  when that call raises, the exception leaves the wrapper, the state is unchanged, and nothing
  follows it in the trace. No run of the wrapper starts more than two report POSTs, and a run
  in which context resolution or the handler raised starts at most one.
\<close>

theorem report_exception_in_executor:
  "(call_handler env callback task = Some (Inr result, evs) \<and> truthy result
      \<and> update_task_result cfg env (workflowInstanceId task) (taskId task)
           ''COMPLETED'' result PNone PNone PNone = (Inl e, evs1)
      \<and> update_task_result cfg env (workflowInstanceId task) (taskId task)
           ''FAILED'' (failure_output e) PNone PNone PNone = (r2, evs2)
    \<longrightarrow> callback_wrapper cfg env callback task self =
          Some (case r2 of
                  Inl e' \<Rightarrow> (Inl e', self, evs @ evs1 @ evs2)
                | Inr _ \<Rightarrow>
                    (case del_task (taskId task) self of
                       Inl e' \<Rightarrow> (Inl e', self, evs @ evs1 @ evs2)
                     | Inr self' \<Rightarrow> (Inr (), self', evs @ evs1 @ evs2))))
   \<and> (call_handler env callback task = Some (Inl e0, evs)
      \<and> update_task_result cfg env (workflowInstanceId task) (taskId task)
           ''FAILED'' (failure_output e0) PNone PNone PNone = (r1, evs1)
    \<longrightarrow> callback_wrapper cfg env callback task self =
          Some (case r1 of
                  Inl e' \<Rightarrow> (Inl e', self, evs @ evs1)
                | Inr _ \<Rightarrow>
                    (case del_task (taskId task) self of
                       Inl e' \<Rightarrow> (Inl e', self, evs @ evs1)
                     | Inr self' \<Rightarrow> (Inr (), self', evs @ evs1))))
   \<and> (callback_wrapper cfg env callback task self = Some (r, self', tr)
    \<longrightarrow> length (posts tr) \<le> 2)
   \<and> (call_handler env callback task = Some (Inl e0, evs)
      \<and> callback_wrapper cfg env callback task self = Some (r, self', tr)
    \<longrightarrow> length (posts tr) \<le> 1)"
proof -
  have a: "callback_wrapper cfg env callback task self =
          Some (case r2 of
                  Inl e' \<Rightarrow> (Inl e', self, evs @ evs1 @ evs2)
                | Inr _ \<Rightarrow>
                    (case del_task (taskId task) self of
                       Inl e' \<Rightarrow> (Inl e', self, evs @ evs1 @ evs2)
                     | Inr self' \<Rightarrow> (Inr (), self', evs @ evs1 @ evs2)))"
    if "call_handler env callback task = Some (Inr result, evs)" "truthy result"
      "update_task_result cfg env (workflowInstanceId task) (taskId task)
           ''COMPLETED'' result PNone PNone PNone = (Inl e, evs1)"
      "update_task_result cfg env (workflowInstanceId task) (taskId task)
           ''FAILED'' (failure_output e) PNone PNone PNone = (r2, evs2)"
    using that by (rule callback_wrapper_report_raises)
  have b: "callback_wrapper cfg env callback task self =
          Some (case r1 of
                  Inl e' \<Rightarrow> (Inl e', self, evs @ evs1)
                | Inr _ \<Rightarrow>
                    (case del_task (taskId task) self of
                       Inl e' \<Rightarrow> (Inl e', self, evs @ evs1)
                     | Inr self' \<Rightarrow> (Inr (), self', evs @ evs1)))"
    if "call_handler env callback task = Some (Inl e0, evs)"
      "update_task_result cfg env (workflowInstanceId task) (taskId task)
           ''FAILED'' (failure_output e0) PNone PNone PNone = (r1, evs1)"
    using that by (simp add: callback_wrapper_failure_path split: sum.split)
  have c: "length (posts tr) \<le> 2"
    if "callback_wrapper cfg env callback task self = Some (r, self', tr)"
    using that by (rule callback_wrapper_posts_le2)
  have d: "length (posts tr) \<le> 1"
    if "call_handler env callback task = Some (Inl e0, evs)"
      "callback_wrapper cfg env callback task self = Some (r, self', tr)"
    using that by (rule callback_wrapper_failure_posts_le1)
  from a b c d show ?thesis by blast
qed

lemma flaky_reports:
  "update_task_result (default_config ''worker-1'') flaky_world (workflowInstanceId task_t1)
     (taskId task_t1) ''COMPLETED'' (PDict [(''width'', PInt 100)]) PNone PNone PNone
   = (Inl (Raised ''timeout''),
      [TasksPost [(''workflowInstanceId'', PStr ''w1''), (''taskId'', PStr ''t1''),
                  (''status'', PStr ''COMPLETED''), (''workerId'', PStr ''worker-1''),
                  (''outputData'', PDict [(''width'', PInt 100)])]])"
  "update_task_result (default_config ''worker-1'') flaky_world (workflowInstanceId task_t1)
     (taskId task_t1) ''FAILED'' (failure_output (Raised ''timeout'')) PNone PNone PNone
   = (Inr (),
      [TasksPost [(''workflowInstanceId'', PStr ''w1''), (''taskId'', PStr ''t1''),
                  (''status'', PStr ''FAILED''), (''workerId'', PStr ''worker-1''),
                  (''outputData'',
                   PDict [(''success'', PBool False), (''errMsg'', PStr ''timeout'')])]])"
  by (simp_all add: sample_report_inline [where obj_bytes = "the (map_of sample_json
                     (PDict [(''width'', PInt 100)]))"]
        sample_report_inline [where obj_bytes = "the (map_of sample_json
                     (failure_output (Raised ''timeout'')))"]
        sample_json_def task_t1_def flaky_world_def failure_output_def)


lemma down_call_failing:
  "call_handler down_world failing_handler task_t1 =
     Some (Inl (Raised ''disk full''),
           [WorkflowGet ''w1'', RedisGet ''workflow:context:w1''])"
  by (simp add: call_handler_def task_t1_def failing_handler_def sample_context_w1
        down_world_def)

lemma down_report_failed:
  "update_task_result (default_config ''worker-1'') down_world (workflowInstanceId task_t1)
     (taskId task_t1) ''FAILED'' (failure_output (Raised ''disk full'')) PNone PNone PNone
   = (Inl (Raised ''connection refused''),
      [TasksPost [(''workflowInstanceId'', PStr ''w1''), (''taskId'', PStr ''t1''),
                  (''status'', PStr ''FAILED''), (''workerId'', PStr ''worker-1''),
                  (''outputData'',
                   PDict [(''success'', PBool False), (''errMsg'', PStr ''disk full'')])]])"
  by (simp add: sample_report_inline [where obj_bytes = "the (map_of sample_json
                     (failure_output (Raised ''disk full'')))"]
        sample_json_def task_t1_def down_world_def failure_output_def)

theorem report_exception_in_executor_witness:
  "call_handler flaky_world resize_handler task_t1 =
     Some (Inr (PDict [(''width'', PInt 100)]),
           [WorkflowGet ''w1'', RedisGet ''workflow:context:w1''])
   \<and> truthy (PDict [(''width'', PInt 100)])
   \<and> fst (update_task_result (default_config ''worker-1'') flaky_world
             (workflowInstanceId task_t1) (taskId task_t1) ''COMPLETED''
             (PDict [(''width'', PInt 100)]) PNone PNone PNone) = Inl (Raised ''timeout'')
   \<and> map_option (\<lambda>(r, self', tr). (r, length (posts tr)))
        (callback_wrapper (default_config ''worker-1'') flaky_world resize_handler task_t1
           sample_client) = Some (Inr (), 2)
   \<and> call_handler down_world failing_handler task_t1 =
        Some (Inl (Raised ''disk full''),
              [WorkflowGet ''w1'', RedisGet ''workflow:context:w1''])
   \<and> callback_wrapper (default_config ''worker-1'') down_world failing_handler task_t1
        sample_client =
        Some (Inl (Raised ''connection refused''), sample_client,
              [WorkflowGet ''w1'', RedisGet ''workflow:context:w1'',
               TasksPost [(''workflowInstanceId'', PStr ''w1''), (''taskId'', PStr ''t1''),
                          (''status'', PStr ''FAILED''), (''workerId'', PStr ''worker-1''),
                          (''outputData'',
                           PDict [(''success'', PBool False),
                                  (''errMsg'', PStr ''disk full'')])]])
   \<and> length (posts [WorkflowGet ''w1'', RedisGet ''workflow:context:w1'',
               TasksPost [(''workflowInstanceId'', PStr ''w1''), (''taskId'', PStr ''t1''),
                          (''status'', PStr ''FAILED''), (''workerId'', PStr ''worker-1''),
                          (''outputData'',
                           PDict [(''success'', PBool False),
                                  (''errMsg'', PStr ''disk full'')])]]) \<le> 1"
proof -
  have t: "truthy (PDict [(''width'', PInt 100)])" by simp
  have d: "del_task (taskId task_t1) sample_client
             = Inr (sample_client\<lparr>tasks := [(''t2'', task_t2), (''t9'', task_t9)]\<rparr>)"
    by (simp add: del_task_def sample_client_def task_t1_def)
  note th = report_exception_in_executor
  from th [THEN conjunct1, rule_format,
           OF conjI [OF flaky_call_resize conjI [OF t conjI [OF flaky_reports]]],
           of sample_client]
  have a: "map_option (\<lambda>(r, self', tr). (r, length (posts tr)))
        (callback_wrapper (default_config ''worker-1'') flaky_world resize_handler task_t1
           sample_client) = Some (Inr (), 2)"
    by (simp add: d)
  from th [THEN conjunct2, THEN conjunct1, rule_format,
           OF conjI [OF down_call_failing down_report_failed], of sample_client]
  have b: "callback_wrapper (default_config ''worker-1'') down_world failing_handler task_t1
        sample_client =
        Some (Inl (Raised ''connection refused''), sample_client,
              [WorkflowGet ''w1'', RedisGet ''workflow:context:w1'',
               TasksPost [(''workflowInstanceId'', PStr ''w1''), (''taskId'', PStr ''t1''),
                          (''status'', PStr ''FAILED''), (''workerId'', PStr ''worker-1''),
                          (''outputData'',
                           PDict [(''success'', PBool False),
                                  (''errMsg'', PStr ''disk full'')])]])"
    by simp
  from th [THEN conjunct2, THEN conjunct2, THEN conjunct2, rule_format,
           OF conjI [OF down_call_failing b]]
  have c: "length (posts [WorkflowGet ''w1'', RedisGet ''workflow:context:w1'',
               TasksPost [(''workflowInstanceId'', PStr ''w1''), (''taskId'', PStr ''t1''),
                          (''status'', PStr ''FAILED''), (''workerId'', PStr ''worker-1''),
                          (''outputData'',
                           PDict [(''success'', PBool False),
                                  (''errMsg'', PStr ''disk full'')])]]) \<le> 1" .
  from flaky_call_resize t flaky_reports(1) a down_call_failing b c show ?thesis by simp
qed

text \<open>
  C2, as the specification has it, fails: when only the POST of the COMPLETED report raises,
  the exception does not leave the wrapper, which returns normally after a second report,
  FAILED with the message of that exception, has been sent and accepted.
\<close>

theorem report_exception_caught_counterexample:
  "update_task_result (default_config ''worker-1'') flaky_world ''w1'' ''t1'' ''COMPLETED''
     (PDict [(''width'', PInt 100)]) PNone PNone PNone
   = (Inl (Raised ''timeout''),
      [TasksPost [(''workflowInstanceId'', PStr ''w1''), (''taskId'', PStr ''t1''),
                  (''status'', PStr ''COMPLETED''), (''workerId'', PStr ''worker-1''),
                  (''outputData'', PDict [(''width'', PInt 100)])]])
   \<and> callback_wrapper (default_config ''worker-1'') flaky_world resize_handler task_t1
        sample_client =
        Some (Inr (), sample_client\<lparr>tasks := [(''t2'', task_t2), (''t9'', task_t9)]\<rparr>,
              [WorkflowGet ''w1'', RedisGet ''workflow:context:w1'',
               TasksPost [(''workflowInstanceId'', PStr ''w1''), (''taskId'', PStr ''t1''),
                          (''status'', PStr ''COMPLETED''), (''workerId'', PStr ''worker-1''),
                          (''outputData'', PDict [(''width'', PInt 100)])],
               TasksPost [(''workflowInstanceId'', PStr ''w1''), (''taskId'', PStr ''t1''),
                          (''status'', PStr ''FAILED''), (''workerId'', PStr ''worker-1''),
                          (''outputData'',
                           PDict [(''success'', PBool False),
                                  (''errMsg'', PStr ''timeout'')])]])"
proof -
  have d: "del_task (taskId task_t1) sample_client
             = Inr (sample_client\<lparr>tasks := [(''t2'', task_t2), (''t9'', task_t9)]\<rparr>)"
    by (simp add: del_task_def sample_client_def task_t1_def)
  from callback_wrapper_report_raises [OF flaky_call_resize _ flaky_reports, of sample_client]
    flaky_reports(1) d
  show ?thesis by (simp add: task_t1_def)
qed

subsection \<open>Report calls over the threshold, and report calls that do not reach the POST\<close>

lemma update_task_result_external:
  assumes "status = ''COMPLETED'' \<or> status = ''FAILED''"
    and "truthy output_data"
    and "json_dumps env output_data = Inr obj_bytes"
    and "(of_nat (length obj_bytes) / 1024 :: rat)
           > of_int (task_output_payload_size_threshold_kb cfg)"
    and "external_storage cfg = Some upload_bytes"
    and "upload_bytes (''task/output/'' @ t @ ''.json'') obj_bytes = None"
  shows "update_task_result cfg env w t status output_data PNone PNone PNone =
           (case tasks_post env
                   [(''workflowInstanceId'', PStr w), (''taskId'', PStr t),
                    (''status'', PStr status), (''workerId'', PStr (worker_id cfg)),
                    (''outputData'', PDict []),
                    (''externalOutputPayloadStoragePath'',
                     PStr (''task/output/'' @ t @ ''.json''))] of
              Some e \<Rightarrow> Inl e | None \<Rightarrow> Inr (),
            [UploadBytes (''task/output/'' @ t @ ''.json'') obj_bytes,
             TasksPost [(''workflowInstanceId'', PStr w), (''taskId'', PStr t),
                        (''status'', PStr status), (''workerId'', PStr (worker_id cfg)),
                        (''outputData'', PDict []),
                        (''externalOutputPayloadStoragePath'',
                         PStr (''task/output/'' @ t @ ''.json''))]])"
proof -
  have "attach_output_data cfg env t output_data
          [(''workflowInstanceId'', PStr w), (''taskId'', PStr t),
           (''status'', PStr status), (''workerId'', PStr (worker_id cfg))]
        = (Inr [(''workflowInstanceId'', PStr w), (''taskId'', PStr t),
                (''status'', PStr status), (''workerId'', PStr (worker_id cfg)),
                (''outputData'', PDict []),
                (''externalOutputPayloadStoragePath'',
                 PStr (''task/output/'' @ t @ ''.json''))],
           [UploadBytes (''task/output/'' @ t @ ''.json'') obj_bytes])"
    using assms(2-6) by (simp add: attach_output_data_def Let_def)
  with assms(1) show ?thesis
    by (auto simp: update_task_result_def split: option.split)
qed

lemma update_task_result_dumps_raises:
  assumes "status = ''COMPLETED'' \<or> status = ''FAILED''"
    and "truthy output_data"
    and "json_dumps env output_data = Inl e"
  shows "update_task_result cfg env w t status output_data r c wid = (Inl e, [])"
proof -
  have "attach_output_data cfg env t output_data
          [(''workflowInstanceId'', PStr w), (''taskId'', PStr t),
           (''status'', PStr status), (''workerId'', PStr (worker_id cfg))]
        = (Inl e, [])"
    using assms(2,3) by (simp add: attach_output_data_def)
  with assms(1) show ?thesis by (auto simp: update_task_result_def)
qed

lemma update_task_result_no_storage:
  assumes "status = ''COMPLETED'' \<or> status = ''FAILED''"
    and "truthy output_data"
    and "json_dumps env output_data = Inr obj_bytes"
    and "(of_nat (length obj_bytes) / 1024 :: rat)
           > of_int (task_output_payload_size_threshold_kb cfg)"
    and "external_storage cfg = None"
  shows "update_task_result cfg env w t status output_data r c wid =
           (Inl (AttributeError ([CHR 0x27] @ ''NoneType'' @ [CHR 0x27]
                                 @ '' object has no attribute ''
                                 @ [CHR 0x27] @ ''upload_bytes'' @ [CHR 0x27])), [])"
proof -
  have "attach_output_data cfg env t output_data
          [(''workflowInstanceId'', PStr w), (''taskId'', PStr t),
           (''status'', PStr status), (''workerId'', PStr (worker_id cfg))]
        = (Inl (AttributeError ([CHR 0x27] @ ''NoneType'' @ [CHR 0x27]
                                 @ '' object has no attribute ''
                                 @ [CHR 0x27] @ ''upload_bytes'' @ [CHR 0x27])), [])"
    using assms(2-5) by (simp add: attach_output_data_def Let_def)
  with assms(1) show ?thesis by (auto simp: update_task_result_def)
qed

lemma update_task_result_upload_raises:
  assumes "status = ''COMPLETED'' \<or> status = ''FAILED''"
    and "truthy output_data"
    and "json_dumps env output_data = Inr obj_bytes"
    and "(of_nat (length obj_bytes) / 1024 :: rat)
           > of_int (task_output_payload_size_threshold_kb cfg)"
    and "external_storage cfg = Some upload_bytes"
    and "upload_bytes (''task/output/'' @ t @ ''.json'') obj_bytes = Some e"
  shows "update_task_result cfg env w t status output_data r c wid =
           (Inl e, [UploadBytes (''task/output/'' @ t @ ''.json'') obj_bytes])"
proof -
  have "attach_output_data cfg env t output_data
          [(''workflowInstanceId'', PStr w), (''taskId'', PStr t),
           (''status'', PStr status), (''workerId'', PStr (worker_id cfg))]
        = (Inl e, [UploadBytes (''task/output/'' @ t @ ''.json'') obj_bytes])"
    using assms(2-6) by (simp add: attach_output_data_def Let_def)
  with assms(1) show ?thesis by (auto simp: update_task_result_def)
qed

text \<open>
  C7, as the code has it. When the cache has no entry under the key of the root, context
  resolution raises the context-not-found exception after exactly one cache read (the trace
  ends with the single \<open>RedisGet\<close>). In the executor the handler is not called, and the
  wrapper makes one FAILED report call with \<open>{success: False, errMsg: str(e)}\<close> for that
  exception. Whether a report is posted is decided inside that call. When the output
  serializes to at most the threshold, the wrapper posts exactly one body, FAILED for the
  current task with the output inline; when it is over the threshold and the upload returns,
  the bytes are uploaded and exactly one body is posted, FAILED with an empty
  \<open>outputData\<close> and the storage path. When serialization raises, when the output is over
  the threshold and no storage is configured, or when the upload raises, nothing is posted:
  the exception leaves the wrapper and the state is unchanged.
\<close>

theorem context_not_found_reported_failed:
  assumes "ancestor env (workflowInstanceId task) n = Some root_id"
    and "has_no_parent env root_id"
    and "redis_get env (get_workflow_context_cache_key root_id) = Inr None"
  shows "get_workflow_context env (workflowInstanceId task) =
           Some (Inl (ContextNotFoundError root_id),
                 (map WorkflowGet (lineage env (workflowInstanceId task) n)
                   @ [RedisGet (get_workflow_context_cache_key root_id)]))
       \<and> callback_wrapper cfg env callback' task self = callback_wrapper cfg env callback task self
       \<and> (json_dumps env (failure_output (ContextNotFoundError root_id)) = Inr obj_bytes
          \<and> \<not> (of_nat (length obj_bytes) / 1024 :: rat)
                 > of_int (task_output_payload_size_threshold_kb cfg)
        \<longrightarrow> map_option (snd \<circ> snd) (callback_wrapper cfg env callback task self)
            = Some ((map WorkflowGet (lineage env (workflowInstanceId task) n)
                   @ [RedisGet (get_workflow_context_cache_key root_id)])
                    @ [TasksPost [(''workflowInstanceId'', PStr (workflowInstanceId task)),
                               (''taskId'', PStr (taskId task)),
                               (''status'', PStr ''FAILED''),
                               (''workerId'', PStr (worker_id cfg)),
                               (''outputData'', failure_output (ContextNotFoundError root_id))]]))
       \<and> (json_dumps env (failure_output (ContextNotFoundError root_id)) = Inr obj_bytes
          \<and> (of_nat (length obj_bytes) / 1024 :: rat)
                 > of_int (task_output_payload_size_threshold_kb cfg)
          \<and> external_storage cfg = Some upload_bytes
          \<and> upload_bytes (''task/output/'' @ taskId task @ ''.json'') obj_bytes = None
        \<longrightarrow> map_option (snd \<circ> snd) (callback_wrapper cfg env callback task self)
            = Some ((map WorkflowGet (lineage env (workflowInstanceId task) n)
                   @ [RedisGet (get_workflow_context_cache_key root_id)])
                    @ [UploadBytes (''task/output/'' @ taskId task @ ''.json'') obj_bytes,
                       TasksPost [(''workflowInstanceId'', PStr (workflowInstanceId task)),
                               (''taskId'', PStr (taskId task)),
                               (''status'', PStr ''FAILED''),
                               (''workerId'', PStr (worker_id cfg)),
                               (''outputData'', PDict []),
                               (''externalOutputPayloadStoragePath'',
                                PStr (''task/output/'' @ taskId task @ ''.json''))]]))
       \<and> (json_dumps env (failure_output (ContextNotFoundError root_id)) = Inl e'
        \<longrightarrow> callback_wrapper cfg env callback task self
            = Some (Inl e', self, (map WorkflowGet (lineage env (workflowInstanceId task) n)
                   @ [RedisGet (get_workflow_context_cache_key root_id)])))
       \<and> (json_dumps env (failure_output (ContextNotFoundError root_id)) = Inr obj_bytes
          \<and> (of_nat (length obj_bytes) / 1024 :: rat)
                 > of_int (task_output_payload_size_threshold_kb cfg)
          \<and> external_storage cfg = None
        \<longrightarrow> callback_wrapper cfg env callback task self
            = Some (Inl (AttributeError ([CHR 0x27] @ ''NoneType'' @ [CHR 0x27]
                                        @ '' object has no attribute ''
                                        @ [CHR 0x27] @ ''upload_bytes'' @ [CHR 0x27])), self,
                    (map WorkflowGet (lineage env (workflowInstanceId task) n)
                   @ [RedisGet (get_workflow_context_cache_key root_id)])))
       \<and> (json_dumps env (failure_output (ContextNotFoundError root_id)) = Inr obj_bytes
          \<and> (of_nat (length obj_bytes) / 1024 :: rat)
                 > of_int (task_output_payload_size_threshold_kb cfg)
          \<and> external_storage cfg = Some upload_bytes
          \<and> upload_bytes (''task/output/'' @ taskId task @ ''.json'') obj_bytes = Some e'
        \<longrightarrow> callback_wrapper cfg env callback task self
            = Some (Inl e', self,
                    (map WorkflowGet (lineage env (workflowInstanceId task) n)
                   @ [RedisGet (get_workflow_context_cache_key root_id)])
                    @ [UploadBytes (''task/output/'' @ taskId task @ ''.json'') obj_bytes]))"
proof -
  let ?evs = "map WorkflowGet (lineage env (workflowInstanceId task) n)
              @ [RedisGet (get_workflow_context_cache_key root_id)]"
  let ?e = "ContextNotFoundError root_id"
  let ?u = "update_task_result cfg env (workflowInstanceId task) (taskId task)
              ''FAILED'' (failure_output ?e) PNone PNone PNone"
  have ctx: "get_workflow_context env (workflowInstanceId task) = Some (Inl ?e, ?evs)"
    using assms by (simp add: get_workflow_context_def walk_reaches_root)
  have wr: "callback_wrapper cfg env cb task self =
           Some (case ?u of
                   (Inl e', evs') \<Rightarrow> (Inl e', self, ?evs @ evs')
                 | (Inr _, evs') \<Rightarrow>
                     (case del_task (taskId task) self of
                        Inl e' \<Rightarrow> (Inl e', self, ?evs @ evs')
                      | Inr self' \<Rightarrow> (Inr (), self', ?evs @ evs')))" for cb
    by (rule callback_wrapper_failure_path [OF call_handler_context_raises [OF ctx]])
  have same: "callback_wrapper cfg env callback' task self
                = callback_wrapper cfg env callback task self"
    by (simp only: wr)
  have st: "''FAILED'' = ''COMPLETED'' \<or> ''FAILED'' = ''FAILED''" by simp
  have t: "truthy (failure_output ?e)" by simp
  have p3: "(json_dumps env (failure_output (ContextNotFoundError root_id)) = Inr obj_bytes
          \<and> \<not> (of_nat (length obj_bytes) / 1024 :: rat)
                 > of_int (task_output_payload_size_threshold_kb cfg)
        \<longrightarrow> map_option (snd \<circ> snd) (callback_wrapper cfg env callback task self)
            = Some ((map WorkflowGet (lineage env (workflowInstanceId task) n)
                   @ [RedisGet (get_workflow_context_cache_key root_id)])
                    @ [TasksPost [(''workflowInstanceId'', PStr (workflowInstanceId task)),
                               (''taskId'', PStr (taskId task)),
                               (''status'', PStr ''FAILED''),
                               (''workerId'', PStr (worker_id cfg)),
                               (''outputData'', failure_output (ContextNotFoundError root_id))]]))"
    by (auto simp: wr update_task_result_inline [OF st t] split: option.split sum.split)
  have p4: "(json_dumps env (failure_output (ContextNotFoundError root_id)) = Inr obj_bytes
          \<and> (of_nat (length obj_bytes) / 1024 :: rat)
                 > of_int (task_output_payload_size_threshold_kb cfg)
          \<and> external_storage cfg = Some upload_bytes
          \<and> upload_bytes (''task/output/'' @ taskId task @ ''.json'') obj_bytes = None
        \<longrightarrow> map_option (snd \<circ> snd) (callback_wrapper cfg env callback task self)
            = Some ((map WorkflowGet (lineage env (workflowInstanceId task) n)
                   @ [RedisGet (get_workflow_context_cache_key root_id)])
                    @ [UploadBytes (''task/output/'' @ taskId task @ ''.json'') obj_bytes,
                       TasksPost [(''workflowInstanceId'', PStr (workflowInstanceId task)),
                               (''taskId'', PStr (taskId task)),
                               (''status'', PStr ''FAILED''),
                               (''workerId'', PStr (worker_id cfg)),
                               (''outputData'', PDict []),
                               (''externalOutputPayloadStoragePath'',
                                PStr (''task/output/'' @ taskId task @ ''.json''))]]))"
    by (auto simp: wr update_task_result_external [OF st t] split: option.split sum.split)
  have p5: "(json_dumps env (failure_output (ContextNotFoundError root_id)) = Inl e'
        \<longrightarrow> callback_wrapper cfg env callback task self
            = Some (Inl e', self, (map WorkflowGet (lineage env (workflowInstanceId task) n)
                   @ [RedisGet (get_workflow_context_cache_key root_id)])))"
    by (auto simp: wr update_task_result_dumps_raises [OF st t])
  have p6: "(json_dumps env (failure_output (ContextNotFoundError root_id)) = Inr obj_bytes
          \<and> (of_nat (length obj_bytes) / 1024 :: rat)
                 > of_int (task_output_payload_size_threshold_kb cfg)
          \<and> external_storage cfg = None
        \<longrightarrow> callback_wrapper cfg env callback task self
            = Some (Inl (AttributeError ([CHR 0x27] @ ''NoneType'' @ [CHR 0x27]
                                        @ '' object has no attribute ''
                                        @ [CHR 0x27] @ ''upload_bytes'' @ [CHR 0x27])), self,
                    (map WorkflowGet (lineage env (workflowInstanceId task) n)
                   @ [RedisGet (get_workflow_context_cache_key root_id)])))"
    by (auto simp: wr update_task_result_no_storage [OF st t])
  have p7: "(json_dumps env (failure_output (ContextNotFoundError root_id)) = Inr obj_bytes
          \<and> (of_nat (length obj_bytes) / 1024 :: rat)
                 > of_int (task_output_payload_size_threshold_kb cfg)
          \<and> external_storage cfg = Some upload_bytes
          \<and> upload_bytes (''task/output/'' @ taskId task @ ''.json'') obj_bytes = Some e'
        \<longrightarrow> callback_wrapper cfg env callback task self
            = Some (Inl e', self,
                    (map WorkflowGet (lineage env (workflowInstanceId task) n)
                   @ [RedisGet (get_workflow_context_cache_key root_id)])
                    @ [UploadBytes (''task/output/'' @ taskId task @ ''.json'') obj_bytes]))"
    by (auto simp: wr update_task_result_upload_raises [OF st t])
  from ctx same p3 p4 p5 p6 p7 show ?thesis by blast
qed

lemma sample_x9:
  "ancestor sample_world (workflowInstanceId task_t9) 0 = Some ''x9''"
  "has_no_parent sample_world ''x9''"
  "redis_get sample_world (get_workflow_context_cache_key ''x9'') = Inr None"
  by (simp_all add: task_t9_def has_no_parent_def get_workflow_context_cache_key_def
        sample_world_def)

theorem context_not_found_reported_failed_witness:
  "ancestor sample_world (workflowInstanceId task_t9) 0 = Some ''x9''
   \<and> has_no_parent sample_world ''x9''
   \<and> redis_get sample_world (get_workflow_context_cache_key ''x9'') = Inr None
   \<and> get_workflow_context sample_world ''x9'' =
        Some (Inl (ContextNotFoundError ''x9''),
              [WorkflowGet ''x9'', RedisGet ''workflow:context:x9''])
   \<and> map_option (snd \<circ> snd)
         (callback_wrapper (default_config ''worker-1'') sample_world resize_handler
            task_t9 sample_client)
       = Some [WorkflowGet ''x9'', RedisGet ''workflow:context:x9'',
               TasksPost [(''workflowInstanceId'', PStr ''x9''),
                          (''taskId'', PStr ''t9''),
                          (''status'', PStr ''FAILED''),
                          (''workerId'', PStr ''worker-1''),
                          (''outputData'', failure_output (ContextNotFoundError ''x9''))]]
   \<and> map_option (posts \<circ> snd \<circ> snd)
         (callback_wrapper offload_config sample_world resize_handler task_t9 sample_client)
       = Some [[(''workflowInstanceId'', PStr ''x9''),
                (''taskId'', PStr ''t9''),
                (''status'', PStr ''FAILED''),
                (''workerId'', PStr ''worker-1''),
                (''outputData'', PDict []),
                (''externalOutputPayloadStoragePath'', PStr ''task/output/t9.json'')]]"
proof -
  obtain js where d: "json_dumps sample_world (failure_output (ContextNotFoundError ''x9''))
                        = Inr js"
    and l: "length js < 1024" and l0: "0 < length js"
    by (simp add: sample_world_def sample_json_def failure_output_def)
  from l have small: "\<not> (of_nat (length js) / 1024 :: rat)
                     > of_int (task_output_payload_size_threshold_kb (default_config ''worker-1''))"
    by (simp add: default_config_def)
  from l0 have big: "(of_nat (length js) / 1024 :: rat)
                     > of_int (task_output_payload_size_threshold_kb offload_config)"
    by (simp add: offload_config_def)
  have st: "external_storage offload_config = Some (\<lambda>key obj_bytes. None)"
    by (simp add: offload_config_def)
  note t = context_not_found_reported_failed [OF sample_x9]
  have g: "get_workflow_context sample_world ''x9'' =
             Some (Inl (ContextNotFoundError ''x9''),
                   [WorkflowGet ''x9'', RedisGet ''workflow:context:x9''])"
    using t [THEN conjunct1] by (simp add: task_t9_def get_workflow_context_cache_key_def)
  have i: "map_option (snd \<circ> snd)
         (callback_wrapper (default_config ''worker-1'') sample_world resize_handler
            task_t9 sample_client)
       = Some [WorkflowGet ''x9'', RedisGet ''workflow:context:x9'',
               TasksPost [(''workflowInstanceId'', PStr ''x9''),
                          (''taskId'', PStr ''t9''),
                          (''status'', PStr ''FAILED''),
                          (''workerId'', PStr ''worker-1''),
                          (''outputData'', failure_output (ContextNotFoundError ''x9''))]]"
    using t [THEN conjunct2, THEN conjunct2, THEN conjunct1, rule_format,
             OF conjI [OF d small], of resize_handler sample_client]
    by (simp add: task_t9_def get_workflow_context_cache_key_def default_config_def)
  have "map_option (snd \<circ> snd)
         (callback_wrapper offload_config sample_world resize_handler task_t9 sample_client)
       = Some ([WorkflowGet ''x9'', RedisGet ''workflow:context:x9'']
               @ [UploadBytes ''task/output/t9.json'' js,
                  TasksPost [(''workflowInstanceId'', PStr ''x9''),
                             (''taskId'', PStr ''t9''),
                             (''status'', PStr ''FAILED''),
                             (''workerId'', PStr ''worker-1''),
                             (''outputData'', PDict []),
                             (''externalOutputPayloadStoragePath'',
                              PStr ''task/output/t9.json'')]])"
    using t [THEN conjunct2, THEN conjunct2, THEN conjunct2, THEN conjunct1, rule_format,
             OF conjI [OF d conjI [OF big conjI [OF st refl]]],
             of resize_handler sample_client]
    by (simp add: task_t9_def get_workflow_context_cache_key_def offload_config_def
          default_config_def)
  then have e: "map_option (posts \<circ> snd \<circ> snd)
         (callback_wrapper offload_config sample_world resize_handler task_t9 sample_client)
       = Some [[(''workflowInstanceId'', PStr ''x9''),
                (''taskId'', PStr ''t9''),
                (''status'', PStr ''FAILED''),
                (''workerId'', PStr ''worker-1''),
                (''outputData'', PDict []),
                (''externalOutputPayloadStoragePath'', PStr ''task/output/t9.json'')]]"
    by (cases "callback_wrapper offload_config sample_world resize_handler task_t9
                 sample_client") auto
  from sample_x9 g i e show ?thesis by blast
qed

text \<open>
  C7, as the specification has it, fails in its second half. With a configuration that
  externalizes every output and names no storage, the cache miss for \<open>x9\<close> is raised, the
  FAILED report call of the \<^verbatim>\<open>except\<close> block raises before its POST, and the wrapper
  ends with that exception: no report is posted for the task and its entry stays registered.
\<close>

theorem context_not_found_unreported_counterexample:
  "has_no_parent sample_world ''x9''
   \<and> redis_get sample_world (get_workflow_context_cache_key ''x9'') = Inr None
   \<and> task_output_payload_size_threshold_kb no_storage_config = 0
   \<and> external_storage no_storage_config = None
   \<and> callback_wrapper no_storage_config sample_world resize_handler task_t9 sample_client
       = Some (Inl (AttributeError ([CHR 0x27] @ ''NoneType'' @ [CHR 0x27]
                                    @ '' object has no attribute ''
                                    @ [CHR 0x27] @ ''upload_bytes'' @ [CHR 0x27])),
               sample_client,
               [WorkflowGet ''x9'', RedisGet ''workflow:context:x9''])
   \<and> map_of (tasks sample_client) ''t9'' = Some task_t9"
proof -
  let ?e = "ContextNotFoundError ''x9''"
  obtain js where d: "json_dumps sample_world (failure_output ?e) = Inr js"
    and l0: "0 < length js"
    by (simp add: sample_world_def sample_json_def failure_output_def)
  have th: "task_output_payload_size_threshold_kb no_storage_config = 0"
    and ns: "external_storage no_storage_config = None"
    by (simp_all add: no_storage_config_def default_config_def)
  from l0 have big: "(of_nat (length js) / 1024 :: rat)
                     > of_int (task_output_payload_size_threshold_kb no_storage_config)"
    by (simp add: th)
  have st: "''FAILED'' = ''COMPLETED'' \<or> ''FAILED'' = ''FAILED''" by simp
  have ctx: "get_workflow_context sample_world (workflowInstanceId task_t9) =
               Some (Inl ?e, [WorkflowGet ''x9'', RedisGet ''workflow:context:x9''])"
    by (simp add: get_workflow_context_def get_workflow_context_cache_key_def sample_world_def
          task_t9_def get_real_workflow_instance_id_start_by_server.simps [of _ "''x9''"])
  have w: "callback_wrapper no_storage_config sample_world resize_handler task_t9 sample_client
       = Some (Inl (AttributeError ([CHR 0x27] @ ''NoneType'' @ [CHR 0x27]
                                    @ '' object has no attribute ''
                                    @ [CHR 0x27] @ ''upload_bytes'' @ [CHR 0x27])),
               sample_client,
               [WorkflowGet ''x9'', RedisGet ''workflow:context:x9''])"
    by (simp add: callback_wrapper_failure_path [OF call_handler_context_raises [OF ctx]]
          update_task_result_no_storage [OF st truthy_failure_output d big ns])
  have r: "map_of (tasks sample_client) ''t9'' = Some task_t9"
    by (simp add: sample_client_def)
  from sample_x9(2,3) th ns w r show ?thesis by blast
qed

lemma fail_tasks_posted_body:
  assumes "b \<in> set (posts (snd (fail_tasks cfg env self ks)))"
  shows "map_of b ''status'' = Some (PStr ''FAILED'')
       \<and> map_of b ''reasonForIncompletion'' = None
       \<and> (\<exists>task_id \<in> set ks. map_of b ''taskId'' = Some (PStr task_id)
                              \<and> carries_output task_id restart_output b)"
  using assms
proof (induction ks)
  case Nil
  then show ?case by simp
next
  case (Cons task_id rest)
  show ?case
  proof (cases "map_of (tasks self) task_id")
    case None
    with Cons.prems show ?thesis by simp
  next
    case (Some task)
    obtain r evs where u: "update_task_result cfg env (workflowInstanceId task) task_id
                             ''FAILED'' restart_output PNone PNone PNone = (r, evs)"
      by (cases "update_task_result cfg env (workflowInstanceId task) task_id
                   ''FAILED'' restart_output PNone PNone PNone")
    have here: "map_of b' ''status'' = Some (PStr ''FAILED'')
                \<and> map_of b' ''reasonForIncompletion'' = None
                \<and> map_of b' ''taskId'' = Some (PStr task_id)
                \<and> carries_output task_id restart_output b'"
      if "b' \<in> set (posts evs)" for b'
      using update_task_result_posted_body
              [of b' cfg env "workflowInstanceId task" task_id "''FAILED''" restart_output]
            that u
      by simp
    show ?thesis
    proof (cases r)
      case (Inl e)
      with Cons.prems Some u have "b \<in> set (posts evs)" by simp
      with here show ?thesis by simp
    next
      case (Inr x)
      with Cons.prems Some u
      have "b \<in> set (posts evs) \<or> b \<in> set (posts (snd (fail_tasks cfg env self rest)))"
        by (auto simp: split_beta posts_append)
      with here Cons.IH show ?thesis by auto
    qed
  qed
qed


lemma posts_concat: "posts (concat xss) = concat (map posts xss)"
  by (induction xss) (simp_all add: posts_append)

text \<open>
  The loop over a list of entries of the registry: while the report calls return, the trace
  is that of the calls in order; the first call that raises ends the loop with its exception.
\<close>

lemma fail_tasks_all_return:
  assumes "distinct (map fst (tasks self))"
    and "set entries \<subseteq> set (tasks self)"
    and "\<forall>(task_id, task) \<in> set entries.
           fst (update_task_result cfg env (workflowInstanceId task) task_id
                  ''FAILED'' restart_output PNone PNone PNone) = Inr ()"
  shows "fail_tasks cfg env self (map fst entries) =
           (Inr (),
            concat (map (\<lambda>(task_id, task).
                           snd (update_task_result cfg env (workflowInstanceId task) task_id
                                  ''FAILED'' restart_output PNone PNone PNone)) entries))"
  using assms(2,3)
proof (induction entries)
  case Nil
  show ?case by simp
next
  case (Cons entry rest)
  obtain task_id task where e: "entry = (task_id, task)" by (cases entry)
  with Cons.prems(1) assms(1) have m: "map_of (tasks self) task_id = Some task"
    by simp
  obtain evs where u: "update_task_result cfg env (workflowInstanceId task) task_id
                             ''FAILED'' restart_output PNone PNone PNone = (Inr (), evs)"
    using Cons.prems(2) e
    by (cases "update_task_result cfg env (workflowInstanceId task) task_id
                   ''FAILED'' restart_output PNone PNone PNone") auto
  from Cons.IH Cons.prems
  have "fail_tasks cfg env self (map fst rest) =
           (Inr (),
            concat (map (\<lambda>(task_id, task).
                           snd (update_task_result cfg env (workflowInstanceId task) task_id
                                  ''FAILED'' restart_output PNone PNone PNone)) rest))"
    by simp
  with e m u show ?case by simp
qed

lemma fail_tasks_stops:
  assumes "distinct (map fst (tasks self))"
    and "set before \<subseteq> set (tasks self)"
    and "(task_id, task) \<in> set (tasks self)"
    and "\<forall>(k, v) \<in> set before.
           fst (update_task_result cfg env (workflowInstanceId v) k
                  ''FAILED'' restart_output PNone PNone PNone) = Inr ()"
    and "update_task_result cfg env (workflowInstanceId task) task_id
           ''FAILED'' restart_output PNone PNone PNone = (Inl e, evs)"
  shows "fail_tasks cfg env self (map fst before @ task_id # ks) =
           (Inl e,
            concat (map (\<lambda>(k, v).
                           snd (update_task_result cfg env (workflowInstanceId v) k
                                  ''FAILED'' restart_output PNone PNone PNone)) before)
            @ evs)"
  using assms(2,4)
proof (induction before)
  case Nil
  from assms(1,3) have "map_of (tasks self) task_id = Some task" by simp
  with assms(5) show ?case by simp
next
  case (Cons entry rest)
  obtain k v where e: "entry = (k, v)" by (cases entry)
  with Cons.prems(1) assms(1) have m: "map_of (tasks self) k = Some v"
    by simp
  obtain evs' where u: "update_task_result cfg env (workflowInstanceId v) k
                             ''FAILED'' restart_output PNone PNone PNone = (Inr (), evs')"
    using Cons.prems(2) e
    by (cases "update_task_result cfg env (workflowInstanceId v) k
                   ''FAILED'' restart_output PNone PNone PNone") auto
  from Cons.IH Cons.prems
  have "fail_tasks cfg env self (map fst rest @ task_id # ks) =
           (Inl e,
            concat (map (\<lambda>(k, v).
                           snd (update_task_result cfg env (workflowInstanceId v) k
                                  ''FAILED'' restart_output PNone PNone PNone)) rest)
            @ evs)"
    by simp
  with e m u show ?case by simp
qed

lemma call_posts_one:
  assumes "fst (update_task_result cfg env w t ''FAILED'' restart_output PNone PNone PNone)
             = Inr ()"
  shows "map (\<lambda>b. (map_of b ''taskId'', map_of b ''workflowInstanceId''))
           (posts (snd (update_task_result cfg env w t ''FAILED'' restart_output
                          PNone PNone PNone)))
         = [(Some (PStr t), Some (PStr w))]"
proof -
  obtain evs where u: "update_task_result cfg env w t ''FAILED'' restart_output
                         PNone PNone PNone = (Inr (), evs)"
    using assms
    by (cases "update_task_result cfg env w t ''FAILED'' restart_output PNone PNone PNone")
       auto
  from update_task_result_returns [OF u] obtain b where b: "posts evs = [b]" by blast
  with update_task_result_posted_body [of b cfg env w t "''FAILED''" restart_output] u
  show ?thesis by simp
qed

lemma calls_post_each:
  assumes "\<forall>(task_id, task) \<in> set entries.
           fst (update_task_result cfg env (workflowInstanceId task) task_id
                  ''FAILED'' restart_output PNone PNone PNone) = Inr ()"
  shows "map (\<lambda>b. (map_of b ''taskId'', map_of b ''workflowInstanceId''))
           (posts (concat (map (\<lambda>(task_id, task).
                           snd (update_task_result cfg env (workflowInstanceId task) task_id
                                  ''FAILED'' restart_output PNone PNone PNone)) entries)))
         = map (\<lambda>(task_id, task). (Some (PStr task_id), Some (PStr (workflowInstanceId task))))
             entries"
  using assms
proof (induction entries)
  case Nil
  show ?case by simp
next
  case (Cons entry rest)
  obtain task_id task where e: "entry = (task_id, task)" by (cases entry)
  with Cons.prems
  have "fst (update_task_result cfg env (workflowInstanceId task) task_id
                  ''FAILED'' restart_output PNone PNone PNone) = Inr ()"
    by simp
  note one = call_posts_one [OF this]
  from Cons.IH Cons.prems e one show ?case by (simp add: posts_append)
qed

lemma restart_output_inline_body:
  assumes "b \<in> set (posts (snd (fail_tasks cfg env self ks)))"
    and "json_dumps env restart_output = Inr obj_bytes"
  shows "if (of_nat (length obj_bytes) / 1024 :: rat)
              > of_int (task_output_payload_size_threshold_kb cfg)
         then map_of b ''outputData'' = Some (PDict [])
         else map_of b ''outputData'' = Some restart_output
              \<and> map_of b ''externalOutputPayloadStoragePath'' = None"
  using assms(1)
proof (induction ks)
  case Nil
  then show ?case by simp
next
  case (Cons task_id rest)
  show ?case
  proof (cases "map_of (tasks self) task_id")
    case None
    with Cons.prems show ?thesis by simp
  next
    case (Some task)
    let ?u = "update_task_result cfg env (workflowInstanceId task) task_id
                ''FAILED'' restart_output PNone PNone PNone"
    have st: "''FAILED'' = ''COMPLETED'' \<or> ''FAILED'' = ''FAILED''" by simp
    have here: "if (of_nat (length obj_bytes) / 1024 :: rat)
              > of_int (task_output_payload_size_threshold_kb cfg)
         then map_of b' ''outputData'' = Some (PDict [])
         else map_of b' ''outputData'' = Some restart_output
              \<and> map_of b' ''externalOutputPayloadStoragePath'' = None"
      if "b' \<in> set (posts (snd ?u))" for b'
    proof (cases "(of_nat (length obj_bytes) / 1024 :: rat)
              > of_int (task_output_payload_size_threshold_kb cfg)")
      case False
      from that update_task_result_inline [OF st truthy_restart_output assms(2) False,
             of "workflowInstanceId task" task_id]
      show ?thesis using False by (auto split: option.splits)
    next
      case True
      from that True show ?thesis
        using update_task_result_external [OF st truthy_restart_output assms(2) True,
                of _ task_id "workflowInstanceId task"]
          update_task_result_no_storage [OF st truthy_restart_output assms(2) True,
                of "workflowInstanceId task" task_id PNone PNone PNone]
          update_task_result_upload_raises [OF st truthy_restart_output assms(2) True,
                of _ task_id _ "workflowInstanceId task" PNone PNone PNone]
        by (cases "external_storage cfg";
            cases "the (external_storage cfg) (''task/output/'' @ task_id @ ''.json'') obj_bytes")
           (auto split: option.splits)
    qed
    obtain r evs where u: "?u = (r, evs)" by (cases ?u)
    show ?thesis
    proof (cases r)
      case (Inl e)
      with Cons.prems Some u have "b \<in> set (posts (snd ?u))" by simp
      with here show ?thesis by blast
    next
      case (Inr x)
      with Cons.prems Some u
      have "b \<in> set (posts (snd ?u)) \<or> b \<in> set (posts (snd (fail_tasks cfg env self rest)))"
        by (auto simp: split_beta posts_append)
      with here Cons.IH show ?thesis by blast
    qed
  qed
qed

text \<open>
  C10, as the code has it. \<^verbatim>\<open>set_all_tasks_to_failed_state\<close> leaves the client state,
  and so the in-flight registry, as it was, whatever happens. Every report body it posts has
  status FAILED, no \<open>reasonForIncompletion\<close> field and names a task of the registry. The
  restart reason is the \<open>errMsg\<close> of the output of each report call: when that output
  serializes to at most the threshold, every posted body has
  \<open>{success: False, errMsg: <restart reason>}\<close> as its \<open>outputData\<close>, with the reason as
  the source writes it; over the threshold the output goes to the storage and the body has
  an empty \<open>outputData\<close>. When every report call returns (the registry, a dictionary, has
  each key once), the method returns and the posted bodies are, in the order of the registry,
  one for every entry, with the entry's task id and workflow id. A report call that raises
  ends the method with its exception: the trace is that of the calls for the entries before
  it and of the failed call, and no body is posted for an entry after it.
\<close>

theorem set_all_tasks_to_failed_state_reports:
  "fst (snd (set_all_tasks_to_failed_state cfg env self)) = self
   \<and> (\<forall>b \<in> set (posts (snd (snd (set_all_tasks_to_failed_state cfg env self)))).
         map_of b ''status'' = Some (PStr ''FAILED'')
         \<and> map_of b ''reasonForIncompletion'' = None
         \<and> (\<exists>task_id \<in> set (map fst (tasks self)).
               map_of b ''taskId'' = Some (PStr task_id)
               \<and> carries_output task_id restart_output b))
   \<and> (json_dumps env restart_output = Inr obj_bytes
       \<and> \<not> (of_nat (length obj_bytes) / 1024 :: rat)
              > of_int (task_output_payload_size_threshold_kb cfg)
      \<longrightarrow> (\<forall>b \<in> set (posts (snd (snd (set_all_tasks_to_failed_state cfg env self)))).
            map_of b ''outputData''
              = Some (PDict [(''success'', PBool False),
                          (''errMsg'', PStr (''worker '' @
                             [CHR 0xE5, CHR 0xB7, CHR 0xB2, CHR 0xE9, CHR 0x87, CHR 0x8D,
                              CHR 0xE5, CHR 0x90, CHR 0xAF, CHR 0xEF, CHR 0xBC, CHR 0x8C,
                              CHR 0xE8, CHR 0xAF, CHR 0xB7, CHR 0xE9, CHR 0x87, CHR 0x8D,
                              CHR 0xE6, CHR 0x96, CHR 0xB0, CHR 0xE8, CHR 0xBF, CHR 0x90,
                              CHR 0xE8, CHR 0xA1, CHR 0x8C]))])
            \<and> map_of b ''externalOutputPayloadStoragePath'' = None))
   \<and> (json_dumps env restart_output = Inr obj_bytes
       \<and> (of_nat (length obj_bytes) / 1024 :: rat)
              > of_int (task_output_payload_size_threshold_kb cfg)
      \<longrightarrow> (\<forall>b \<in> set (posts (snd (snd (set_all_tasks_to_failed_state cfg env self)))).
            map_of b ''outputData'' = Some (PDict [])))
   \<and> (distinct (map fst (tasks self))
       \<and> (\<forall>(task_id, task) \<in> set (tasks self).
             fst (update_task_result cfg env (workflowInstanceId task) task_id
                    ''FAILED'' restart_output PNone PNone PNone) = Inr ())
      \<longrightarrow> fst (set_all_tasks_to_failed_state cfg env self) = Inr ()
          \<and> map (\<lambda>b. (map_of b ''taskId'', map_of b ''workflowInstanceId''))
              (posts (snd (snd (set_all_tasks_to_failed_state cfg env self))))
            = map (\<lambda>(task_id, task).
                     (Some (PStr task_id), Some (PStr (workflowInstanceId task))))
                (tasks self))
   \<and> (distinct (map fst (tasks self))
       \<and> tasks self = before @ (task_id, task) # after
       \<and> (\<forall>(k, v) \<in> set before.
             fst (update_task_result cfg env (workflowInstanceId v) k
                    ''FAILED'' restart_output PNone PNone PNone) = Inr ())
       \<and> update_task_result cfg env (workflowInstanceId task) task_id
             ''FAILED'' restart_output PNone PNone PNone = (Inl e, evs)
      \<longrightarrow> fst (set_all_tasks_to_failed_state cfg env self) = Inl e
          \<and> snd (snd (set_all_tasks_to_failed_state cfg env self))
              = concat (map (\<lambda>(k, v). snd (update_task_result cfg env (workflowInstanceId v) k
                                     ''FAILED'' restart_output PNone PNone PNone)) before) @ evs
          \<and> (\<forall>b \<in> set (posts (snd (snd (set_all_tasks_to_failed_state cfg env self)))).
                \<forall>(k, v) \<in> set after. map_of b ''taskId'' \<noteq> Some (PStr k)))"
proof -
  let ?ks = "map fst (tasks self)"
  have s: "set_all_tasks_to_failed_state cfg env self =
             (fst (fail_tasks cfg env self ?ks), self, snd (fail_tasks cfg env self ?ks))"
    by (simp add: set_all_tasks_to_failed_state_def split_beta)
  have lit: "restart_output = (PDict [(''success'', PBool False),
                          (''errMsg'', PStr (''worker '' @
                             [CHR 0xE5, CHR 0xB7, CHR 0xB2, CHR 0xE9, CHR 0x87, CHR 0x8D,
                              CHR 0xE5, CHR 0x90, CHR 0xAF, CHR 0xEF, CHR 0xBC, CHR 0x8C,
                              CHR 0xE8, CHR 0xAF, CHR 0xB7, CHR 0xE9, CHR 0x87, CHR 0x8D,
                              CHR 0xE6, CHR 0x96, CHR 0xB0, CHR 0xE8, CHR 0xBF, CHR 0x90,
                              CHR 0xE8, CHR 0xA1, CHR 0x8C]))])"
    by (simp add: restart_output_def)
  have p1: "fst (snd (set_all_tasks_to_failed_state cfg env self)) = self" by (simp add: s)
  have p2: "(\<forall>b \<in> set (posts (snd (snd (set_all_tasks_to_failed_state cfg env self)))).
         map_of b ''status'' = Some (PStr ''FAILED'')
         \<and> map_of b ''reasonForIncompletion'' = None
         \<and> (\<exists>task_id \<in> set (map fst (tasks self)).
               map_of b ''taskId'' = Some (PStr task_id)
               \<and> carries_output task_id restart_output b))"
    unfolding s using fail_tasks_posted_body [of _ cfg env self ?ks] by simp
  have p3: "(json_dumps env restart_output = Inr obj_bytes
       \<and> \<not> (of_nat (length obj_bytes) / 1024 :: rat)
              > of_int (task_output_payload_size_threshold_kb cfg)
      \<longrightarrow> (\<forall>b \<in> set (posts (snd (snd (set_all_tasks_to_failed_state cfg env self)))).
            map_of b ''outputData''
              = Some (PDict [(''success'', PBool False),
                          (''errMsg'', PStr (''worker '' @
                             [CHR 0xE5, CHR 0xB7, CHR 0xB2, CHR 0xE9, CHR 0x87, CHR 0x8D,
                              CHR 0xE5, CHR 0x90, CHR 0xAF, CHR 0xEF, CHR 0xBC, CHR 0x8C,
                              CHR 0xE8, CHR 0xAF, CHR 0xB7, CHR 0xE9, CHR 0x87, CHR 0x8D,
                              CHR 0xE6, CHR 0x96, CHR 0xB0, CHR 0xE8, CHR 0xBF, CHR 0x90,
                              CHR 0xE8, CHR 0xA1, CHR 0x8C]))])
            \<and> map_of b ''externalOutputPayloadStoragePath'' = None))"
    unfolding s using restart_output_inline_body [of _ cfg env self ?ks obj_bytes]
    by (auto simp: restart_output_def)
  have p4: "(json_dumps env restart_output = Inr obj_bytes
       \<and> (of_nat (length obj_bytes) / 1024 :: rat)
              > of_int (task_output_payload_size_threshold_kb cfg)
      \<longrightarrow> (\<forall>b \<in> set (posts (snd (snd (set_all_tasks_to_failed_state cfg env self)))).
            map_of b ''outputData'' = Some (PDict [])))"
    unfolding s using restart_output_inline_body [of _ cfg env self ?ks obj_bytes]
    by auto
  have p5: "(distinct (map fst (tasks self))
       \<and> (\<forall>(task_id, task) \<in> set (tasks self).
             fst (update_task_result cfg env (workflowInstanceId task) task_id
                    ''FAILED'' restart_output PNone PNone PNone) = Inr ())
      \<longrightarrow> fst (set_all_tasks_to_failed_state cfg env self) = Inr ()
          \<and> map (\<lambda>b. (map_of b ''taskId'', map_of b ''workflowInstanceId''))
              (posts (snd (snd (set_all_tasks_to_failed_state cfg env self))))
            = map (\<lambda>(task_id, task).
                     (Some (PStr task_id), Some (PStr (workflowInstanceId task))))
                (tasks self))"
  proof (intro impI, elim conjE)
    assume d: "distinct (map fst (tasks self))"
      and ok: "\<forall>(task_id, task) \<in> set (tasks self).
             fst (update_task_result cfg env (workflowInstanceId task) task_id
                    ''FAILED'' restart_output PNone PNone PNone) = Inr ()"
    from fail_tasks_all_return [OF d subset_refl ok] calls_post_each [OF ok]
    show "fst (set_all_tasks_to_failed_state cfg env self) = Inr ()
          \<and> map (\<lambda>b. (map_of b ''taskId'', map_of b ''workflowInstanceId''))
              (posts (snd (snd (set_all_tasks_to_failed_state cfg env self))))
            = map (\<lambda>(task_id, task).
                     (Some (PStr task_id), Some (PStr (workflowInstanceId task))))
                (tasks self)"
      by (simp add: s)
  qed
  have p6: "(distinct (map fst (tasks self))
       \<and> tasks self = before @ (task_id, task) # after
       \<and> (\<forall>(k, v) \<in> set before.
             fst (update_task_result cfg env (workflowInstanceId v) k
                    ''FAILED'' restart_output PNone PNone PNone) = Inr ())
       \<and> update_task_result cfg env (workflowInstanceId task) task_id
             ''FAILED'' restart_output PNone PNone PNone = (Inl e, evs)
      \<longrightarrow> fst (set_all_tasks_to_failed_state cfg env self) = Inl e
          \<and> snd (snd (set_all_tasks_to_failed_state cfg env self))
              = concat (map (\<lambda>(k, v). snd (update_task_result cfg env (workflowInstanceId v) k
                                     ''FAILED'' restart_output PNone PNone PNone)) before) @ evs
          \<and> (\<forall>b \<in> set (posts (snd (snd (set_all_tasks_to_failed_state cfg env self)))).
                \<forall>(k, v) \<in> set after. map_of b ''taskId'' \<noteq> Some (PStr k)))"
  proof (intro impI, elim conjE)
    assume d: "distinct (map fst (tasks self))"
      and sp: "tasks self = before @ (task_id, task) # after"
      and ok: "\<forall>(k, v) \<in> set before.
             fst (update_task_result cfg env (workflowInstanceId v) k
                    ''FAILED'' restart_output PNone PNone PNone) = Inr ()"
      and u: "update_task_result cfg env (workflowInstanceId task) task_id
             ''FAILED'' restart_output PNone PNone PNone = (Inl e, evs)"
    from sp have sub: "set before \<subseteq> set (tasks self)" and mem: "(task_id, task) \<in> set (tasks self)"
      by auto
    from sp have ks: "?ks = map fst before @ task_id # map fst after" by simp
    note stop = fail_tasks_stops [OF d sub mem ok u]
    have full: "fail_tasks cfg env self ?ks =
           (Inl e, concat (map (\<lambda>(k, v). snd (update_task_result cfg env (workflowInstanceId v) k
                                     ''FAILED'' restart_output PNone PNone PNone)) before) @ evs)"
      unfolding ks by (rule stop)
    have short: "fail_tasks cfg env self (map fst before @ [task_id]) =
           (Inl e, concat (map (\<lambda>(k, v). snd (update_task_result cfg env (workflowInstanceId v) k
                                     ''FAILED'' restart_output PNone PNone PNone)) before) @ evs)"
      by (rule stop)
    have none: "\<forall>(k, v) \<in> set after. map_of b ''taskId'' \<noteq> Some (PStr k)"
      if b: "b \<in> set (posts (snd (fail_tasks cfg env self ?ks)))" for b
    proof -
      from b full short
      have "b \<in> set (posts (snd (fail_tasks cfg env self (map fst before @ [task_id]))))"
        by simp
      from fail_tasks_posted_body [OF this]
      obtain k where k: "k \<in> set (map fst before @ [task_id])"
        "map_of b ''taskId'' = Some (PStr k)"
        by blast
      from d ks have "distinct (map fst before @ task_id # map fst after)" by simp
      with k(1) have "k \<notin> fst ` set after" by auto
      with k(2) show ?thesis by (force simp: image_iff)
    qed
    from full none
    show "fst (set_all_tasks_to_failed_state cfg env self) = Inl e
          \<and> snd (snd (set_all_tasks_to_failed_state cfg env self))
              = concat (map (\<lambda>(k, v). snd (update_task_result cfg env (workflowInstanceId v) k
                                     ''FAILED'' restart_output PNone PNone PNone)) before) @ evs
          \<and> (\<forall>b \<in> set (posts (snd (snd (set_all_tasks_to_failed_state cfg env self)))).
                \<forall>(k, v) \<in> set after. map_of b ''taskId'' \<noteq> Some (PStr k))"
      by (simp add: s)
  qed
  from p1 p2 p3 p4 p5 p6 show ?thesis by blast
qed

lemma restart_report_in:
  assumes "json_dumps env = json_dumps sample_world"
  shows "update_task_result (default_config ''worker-1'') env w t ''FAILED''
           restart_output PNone PNone PNone
         = (case tasks_post env
                   [(''workflowInstanceId'', PStr w), (''taskId'', PStr t),
                    (''status'', PStr ''FAILED''), (''workerId'', PStr ''worker-1''),
                    (''outputData'', restart_output)] of
              Some e \<Rightarrow> Inl e | None \<Rightarrow> Inr (),
            [TasksPost [(''workflowInstanceId'', PStr w), (''taskId'', PStr t),
                        (''status'', PStr ''FAILED''), (''workerId'', PStr ''worker-1''),
                        (''outputData'', restart_output)]])"
proof -
  obtain js where d: "map_of sample_json restart_output = Some js" and l: "length js \<le> 1024"
    by (simp add: sample_json_def restart_output_def failure_output_def)
  have st: "''FAILED'' = ''COMPLETED'' \<or> ''FAILED'' = ''FAILED''" by simp
  from sample_report_inline [OF st truthy_restart_output d l assms, of w t]
  show ?thesis .
qed

lemma sample_restart_dumps:
  "\<exists>js. json_dumps sample_world restart_output = Inr js
        \<and> \<not> (of_nat (length js) / 1024 :: rat)
               > of_int (task_output_payload_size_threshold_kb (default_config ''worker-1''))"
  by (simp add: sample_world_def sample_json_def restart_output_def failure_output_def
        default_config_def)

lemma map_constant: "\<forall>x \<in> set xs. f x = c \<Longrightarrow> map f xs = replicate (length xs) c"
  by (induction xs) simp_all

theorem set_all_tasks_to_failed_state_reports_witness:
  "distinct (map fst (tasks sample_client))
   \<and> tasks sample_client = [(''t1'', task_t1), (''t2'', task_t2), (''t9'', task_t9)]
   \<and> fst (update_task_result (default_config ''worker-1'') sample_world
            (workflowInstanceId task_t1) ''t1'' ''FAILED'' restart_output
            PNone PNone PNone) = Inr ()
   \<and> fst (update_task_result (default_config ''worker-1'') sample_world
            (workflowInstanceId task_t2) ''t2'' ''FAILED'' restart_output
            PNone PNone PNone) = Inr ()
   \<and> fst (update_task_result (default_config ''worker-1'') sample_world
            (workflowInstanceId task_t9) ''t9'' ''FAILED'' restart_output
            PNone PNone PNone) = Inr ()
   \<and> fst (set_all_tasks_to_failed_state (default_config ''worker-1'') sample_world
            sample_client) = Inr ()
   \<and> fst (snd (set_all_tasks_to_failed_state (default_config ''worker-1'') sample_world
                 sample_client)) = sample_client
   \<and> map (\<lambda>b. (map_of b ''taskId'', map_of b ''workflowInstanceId''))
        (posts (snd (snd (set_all_tasks_to_failed_state (default_config ''worker-1'')
                            sample_world sample_client))))
      = [(Some (PStr ''t1''), Some (PStr ''w1'')),
         (Some (PStr ''t2''), Some (PStr ''c2'')),
         (Some (PStr ''t9''), Some (PStr ''x9''))]
   \<and> map (\<lambda>b. map_of b ''outputData'')
        (posts (snd (snd (set_all_tasks_to_failed_state (default_config ''worker-1'')
                            sample_world sample_client))))
      = replicate 3 (Some (PDict [(''success'', PBool False),
                   (''errMsg'', PStr (''worker '' @
                      [CHR 0xE5, CHR 0xB7, CHR 0xB2, CHR 0xE9, CHR 0x87, CHR 0x8D,
                       CHR 0xE5, CHR 0x90, CHR 0xAF, CHR 0xEF, CHR 0xBC, CHR 0x8C,
                       CHR 0xE8, CHR 0xAF, CHR 0xB7, CHR 0xE9, CHR 0x87, CHR 0x8D,
                       CHR 0xE6, CHR 0x96, CHR 0xB0, CHR 0xE8, CHR 0xBF, CHR 0x90,
                       CHR 0xE8, CHR 0xA1, CHR 0x8C]))]))
   \<and> update_task_result (default_config ''worker-1'') down_world
        (workflowInstanceId task_t1) ''t1'' ''FAILED'' restart_output PNone PNone PNone
      = (Inl (Raised ''connection refused''), [TasksPost [(''workflowInstanceId'', PStr ''w1''), (''taskId'', PStr ''t1''),
                  (''status'', PStr ''FAILED''), (''workerId'', PStr ''worker-1''),
                  (''outputData'', restart_output)]])
   \<and> set_all_tasks_to_failed_state (default_config ''worker-1'') down_world sample_client
      = (Inl (Raised ''connection refused''), sample_client, [TasksPost [(''workflowInstanceId'', PStr ''w1''), (''taskId'', PStr ''t1''),
                  (''status'', PStr ''FAILED''), (''workerId'', PStr ''worker-1''),
                  (''outputData'', restart_output)]])"
proof -
  let ?cfg = "default_config ''worker-1''"
  let ?S = "set_all_tasks_to_failed_state ?cfg sample_world sample_client"
  have d: "distinct (map fst (tasks sample_client))"
    by (simp add: sample_client_def)
  have e: "tasks sample_client = [(''t1'', task_t1), (''t2'', task_t2), (''t9'', task_t9)]"
    by (simp add: sample_client_def)
  have tp: "tasks_post sample_world b = None" for b
    by (simp add: sample_world_def)
  have r: "fst (update_task_result ?cfg sample_world w t ''FAILED'' restart_output
                  PNone PNone PNone) = Inr ()" for w t
    by (simp add: restart_report_in [OF refl] tp)
  note r1 = r [of "workflowInstanceId task_t1" "''t1''"]
    and r2 = r [of "workflowInstanceId task_t2" "''t2''"]
    and r9 = r [of "workflowInstanceId task_t9" "''t9''"]
  have ok: "\<forall>(task_id, task) \<in> set (tasks sample_client).
         fst (update_task_result ?cfg sample_world
                (workflowInstanceId task) task_id ''FAILED'' restart_output
                PNone PNone PNone) = Inr ()"
    by (simp add: r)
  note t = set_all_tasks_to_failed_state_reports [where cfg = ?cfg and self = sample_client]
  have f: "fst (snd ?S) = sample_client"
    using t [where env = sample_world] by (rule conjunct1)
  from t [where env = sample_world, THEN conjunct2, THEN conjunct2, THEN conjunct2,
          THEN conjunct2, THEN conjunct1, rule_format, OF conjI [OF d ok]]
  have res: "fst ?S = Inr ()"
    and ids: "map (\<lambda>b. (map_of b ''taskId'', map_of b ''workflowInstanceId''))
                (posts (snd (snd ?S)))
      = [(Some (PStr ''t1''), Some (PStr ''w1'')),
         (Some (PStr ''t2''), Some (PStr ''c2'')),
         (Some (PStr ''t9''), Some (PStr ''x9''))]"
    by (simp_all add: sample_client_def task_t1_def task_t2_def task_t9_def)
  from arg_cong [OF ids, of length] have len: "length (posts (snd (snd ?S))) = 3"
    by simp
  from sample_restart_dumps obtain js where
    js: "json_dumps sample_world restart_output = Inr js"
      "\<not> (of_nat (length js) / 1024 :: rat)
           > of_int (task_output_payload_size_threshold_kb ?cfg)"
    by blast
  from t [where env = sample_world, THEN conjunct2, THEN conjunct2, THEN conjunct1,
          rule_format, OF conjI [OF js]]
  have "\<forall>b \<in> set (posts (snd (snd ?S))).
          map_of b ''outputData'' = Some (PDict [(''success'', PBool False),
                   (''errMsg'', PStr (''worker '' @
                      [CHR 0xE5, CHR 0xB7, CHR 0xB2, CHR 0xE9, CHR 0x87, CHR 0x8D,
                       CHR 0xE5, CHR 0x90, CHR 0xAF, CHR 0xEF, CHR 0xBC, CHR 0x8C,
                       CHR 0xE8, CHR 0xAF, CHR 0xB7, CHR 0xE9, CHR 0x87, CHR 0x8D,
                       CHR 0xE6, CHR 0x96, CHR 0xB0, CHR 0xE8, CHR 0xBF, CHR 0x90,
                       CHR 0xE8, CHR 0xA1, CHR 0x8C]))])"
    by blast
  from map_constant [OF this] len
  have out: "map (\<lambda>b. map_of b ''outputData'') (posts (snd (snd ?S)))
               = replicate 3 (Some (PDict [(''success'', PBool False),
                   (''errMsg'', PStr (''worker '' @
                      [CHR 0xE5, CHR 0xB7, CHR 0xB2, CHR 0xE9, CHR 0x87, CHR 0x8D,
                       CHR 0xE5, CHR 0x90, CHR 0xAF, CHR 0xEF, CHR 0xBC, CHR 0x8C,
                       CHR 0xE8, CHR 0xAF, CHR 0xB7, CHR 0xE9, CHR 0x87, CHR 0x8D,
                       CHR 0xE6, CHR 0x96, CHR 0xB0, CHR 0xE8, CHR 0xBF, CHR 0x90,
                       CHR 0xE8, CHR 0xA1, CHR 0x8C]))]))"
    by simp
  have u: "update_task_result ?cfg down_world
        (workflowInstanceId task_t1) ''t1'' ''FAILED'' restart_output PNone PNone PNone
      = (Inl (Raised ''connection refused''), [TasksPost [(''workflowInstanceId'', PStr ''w1''), (''taskId'', PStr ''t1''),
                  (''status'', PStr ''FAILED''), (''workerId'', PStr ''worker-1''),
                  (''outputData'', restart_output)]])"
  proof -
    have j: "json_dumps down_world = json_dumps sample_world"
      by (simp add: down_world_def)
    have "tasks_post down_world b = Some (Raised ''connection refused'')" for b
      by (simp add: down_world_def)
    then show ?thesis
      by (simp add: restart_report_in [OF j] task_t1_def)
  qed
  have sp: "tasks sample_client = [] @ (''t1'', task_t1) # [(''t2'', task_t2), (''t9'', task_t9)]"
    by (simp add: sample_client_def)
  let ?D = "set_all_tasks_to_failed_state ?cfg down_world sample_client"
  have prem: "\<forall>(k, v) \<in> set [].
                fst (update_task_result ?cfg down_world (workflowInstanceId v) k
                       ''FAILED'' restart_output PNone PNone PNone) = Inr ()"
    by simp
  note c6 = t [where env = down_world, THEN conjunct2, THEN conjunct2, THEN conjunct2,
               THEN conjunct2, THEN conjunct2, rule_format,
               OF conjI [OF d conjI [OF sp conjI [OF prem u]]]]
  from c6 [THEN conjunct1] have a: "fst ?D = Inl (Raised ''connection refused'')" .
  from c6 [THEN conjunct2, THEN conjunct1]
  have b: "snd (snd ?D) = [TasksPost [(''workflowInstanceId'', PStr ''w1''), (''taskId'', PStr ''t1''),
                  (''status'', PStr ''FAILED''), (''workerId'', PStr ''worker-1''),
                  (''outputData'', restart_output)]]"
    by simp
  from t [where env = down_world, THEN conjunct1]
  have c: "fst (snd ?D) = sample_client" .
  from a b c
  have dn: "?D = (Inl (Raised ''connection refused''), sample_client, [TasksPost [(''workflowInstanceId'', PStr ''w1''), (''taskId'', PStr ''t1''),
                  (''status'', PStr ''FAILED''), (''workerId'', PStr ''worker-1''),
                  (''outputData'', restart_output)]])"
    by (metis prod.collapse)
  show ?thesis
    by (intro conjI) (rule d e r1 r2 r9 res f ids out u dn)+
qed

text \<open>
  C10, as the specification has it, fails when a report call raises. In the world where the
  POST for \<open>t2\<close> fails, the registry holds \<open>t1\<close>, \<open>t2\<close> and \<open>t9\<close>; the method posts
  for \<open>t1\<close> and for \<open>t2\<close> and ends with the exception of the second POST, and no report
  is sent for \<open>t9\<close>.
\<close>

theorem set_all_tasks_to_failed_state_stops_counterexample:
  "tasks sample_client = [(''t1'', task_t1), (''t2'', task_t2), (''t9'', task_t9)]
   \<and> set_all_tasks_to_failed_state (default_config ''worker-1'') t2_down_world sample_client
      = (Inl (Raised ''connection refused''), sample_client,
         [TasksPost [(''workflowInstanceId'', PStr ''w1''), (''taskId'', PStr ''t1''),
                  (''status'', PStr ''FAILED''), (''workerId'', PStr ''worker-1''),
                  (''outputData'', restart_output)],
          TasksPost [(''workflowInstanceId'', PStr ''c2''), (''taskId'', PStr ''t2''),
                  (''status'', PStr ''FAILED''), (''workerId'', PStr ''worker-1''),
                  (''outputData'', restart_output)]])"
proof -
  have j: "json_dumps t2_down_world = json_dumps sample_world"
    by (simp add: t2_down_world_def)
  have e: "tasks sample_client = [(''t1'', task_t1), (''t2'', task_t2), (''t9'', task_t9)]"
    by (simp add: sample_client_def)
  have p1: "tasks_post t2_down_world [(''workflowInstanceId'', PStr ''w1''), (''taskId'', PStr ''t1''),
                  (''status'', PStr ''FAILED''), (''workerId'', PStr ''worker-1''),
                  (''outputData'', restart_output)] = None"
    and p2: "tasks_post t2_down_world [(''workflowInstanceId'', PStr ''c2''), (''taskId'', PStr ''t2''),
                  (''status'', PStr ''FAILED''), (''workerId'', PStr ''worker-1''),
                  (''outputData'', restart_output)] = Some (Raised ''connection refused'')"
    by (simp_all add: t2_down_world_def)
  have u1: "update_task_result (default_config ''worker-1'') t2_down_world
              (workflowInstanceId task_t1) ''t1'' ''FAILED'' restart_output PNone PNone PNone
            = (Inr (), [TasksPost [(''workflowInstanceId'', PStr ''w1''), (''taskId'', PStr ''t1''),
                  (''status'', PStr ''FAILED''), (''workerId'', PStr ''worker-1''),
                  (''outputData'', restart_output)]])"
    and u2: "update_task_result (default_config ''worker-1'') t2_down_world
              (workflowInstanceId task_t2) ''t2'' ''FAILED'' restart_output PNone PNone PNone
            = (Inl (Raised ''connection refused''), [TasksPost [(''workflowInstanceId'', PStr ''c2''), (''taskId'', PStr ''t2''),
                  (''status'', PStr ''FAILED''), (''workerId'', PStr ''worker-1''),
                  (''outputData'', restart_output)]])"
    by (simp_all add: restart_report_in [OF j] task_t1_def task_t2_def p1 p2)
  have "fail_tasks (default_config ''worker-1'') t2_down_world sample_client
          [''t1'', ''t2'', ''t9'']
        = (Inl (Raised ''connection refused''),
           [TasksPost [(''workflowInstanceId'', PStr ''w1''), (''taskId'', PStr ''t1''),
                  (''status'', PStr ''FAILED''), (''workerId'', PStr ''worker-1''),
                  (''outputData'', restart_output)],
            TasksPost [(''workflowInstanceId'', PStr ''c2''), (''taskId'', PStr ''t2''),
                  (''status'', PStr ''FAILED''), (''workerId'', PStr ''worker-1''),
                  (''outputData'', restart_output)]])"
    by (simp add: e u1 u2)
  with e show ?thesis
    by (simp add: set_all_tasks_to_failed_state_def)
qed

end
